theory Spec2Isabelle
  imports Complex_Main "HOL-Library.Log_Nat"
begin

section \<open>JavaScript values used by the component\<close>

subsection \<open>Numbers\<close>

text \<open>
  IEEE 754 double precision, as far as the component needs it. \<open>ilog2 x\<close> is the binary
  exponent \<open>\<lfloor>log\<^sub>2 x\<rfloor>\<close> of a positive rational, from the numbers of binary digits of its
  numerator and denominator. \<open>fl x\<close> is the double nearest to a rational \<open>x\<close> that is
  zero or positive and in the normal range, that is \<open>x\<close> rounded to 53 significant
  binary digits, ties to the even significand. The quotient and the product of two
  doubles are the exact results rounded by \<open>fl\<close>.
\<close>

definition ilog2 :: "rat \<Rightarrow> int" where
  "ilog2 x =
     (let d = bitlen (fst (quotient_of x)) - bitlen (snd (quotient_of x))
      in if 2 powi d \<le> x then d else d - 1)"

definition roundTiesToEven :: "rat \<Rightarrow> int" where
  "roundTiesToEven q =
     (let n = \<lfloor>q\<rfloor>; r = q - of_int n
      in if r < 1 / 2 then n else if 1 / 2 < r then n + 1 else if even n then n else n + 1)"

definition fl :: "rat \<Rightarrow> rat" where
  "fl x =
     (if x = 0 then 0
      else (let e = ilog2 x - 52 in of_int (roundTiesToEven (x / 2 powi e)) * 2 powi e))"

text \<open>
  A JavaScript \<open>number\<close> as far as the component's integer-valued state needs it:
  \<open>NaN\<close>, an infinity, or a double that is an integer. Zero and minus zero are one
  value, as for \<open>===\<close>.
\<close>

datatype jsnum = NaN | Num int | PosInfinity | NegInfinity

text \<open>
  The Number value of an integer given by its sign and its magnitude \<open>v \<ge> 0\<close>: the nearest double,
  which is the integer itself below \<open>2 ^ 53\<close>, and an infinity when the nearest double
  would be \<open>2 ^ 1024\<close> or more, that is when its binary exponent would be 1024 or more.
\<close>

definition integerToNumber :: "bool \<Rightarrow> int \<Rightarrow> jsnum" where
  "integerToNumber neg v =
     (let r = fl (of_int v)
      in if 1024 \<le> ilog2 r then (if neg then NegInfinity else PosInfinity)
         else Num ((if neg then - 1 else 1) * \<lfloor>r\<rfloor>))"

subsection \<open>Strings\<close>

text \<open>
  A JavaScript string is a sequence of UTF-16 code units, each an integer from 0 to
  65535; \<open>js\<close> turns an ASCII literal into one.
\<close>

type_synonym jsstring = "int list"

definition js :: "string \<Rightarrow> jsstring" where
  "js s = map of_char s"

text \<open>
  The white space that \<open>parseInt\<close> and \<open>String.prototype.trim\<close> strip: ECMAScript's
  WhiteSpace (TAB, VT, FF, ZWNBSP and the Unicode space separators) and LineTerminator
  (LF, CR, LS, PS). All of them are single code units.
\<close>

definition isWhiteSpace :: "int \<Rightarrow> bool" where
  "isWhiteSpace c =
     (c \<in> set [0x9, 0xA, 0xB, 0xC, 0xD, 0x20, 0xA0, 0x1680, 0x2028, 0x2029, 0x202F, 0x205F,
                0x3000, 0xFEFF]
      \<or> (0x2000 \<le> c \<and> c \<le> 0x200A))"

definition trim :: "jsstring \<Rightarrow> jsstring" where
  "trim s = rev (dropWhile isWhiteSpace (rev (dropWhile isWhiteSpace s)))"

text \<open>The value of a code unit as a digit: \<open>0-9\<close>, then \<open>a-z\<close> and \<open>A-Z\<close> for 10 to 35.\<close>

definition digitValue :: "int \<Rightarrow> int option" where
  "digitValue n =
     (if 48 \<le> n \<and> n \<le> 57 then Some (n - 48)
      else if 97 \<le> n \<and> n \<le> 122 then Some (n - 87)
      else if 65 \<le> n \<and> n \<le> 90 then Some (n - 55)
      else None)"

definition isRadixDigit :: "int \<Rightarrow> int \<Rightarrow> bool" where
  "isRadixDigit R c = (case digitValue c of None \<Rightarrow> False | Some d \<Rightarrow> d < R)"

definition mathInt :: "int \<Rightarrow> jsstring \<Rightarrow> int" where
  "mathInt R Z =
     foldl (\<lambda>acc c. case digitValue c of None \<Rightarrow> acc * R | Some d \<Rightarrow> acc * R + d) 0 Z"

text \<open>
  \<open>parseInt(string)\<close> with no radix argument (ECMAScript 19.2.5): leading white space is
  dropped, then an optional sign, then an optional \<open>0x\<close>/\<open>0X\<close> prefix that selects
  radix 16 (radix 10 otherwise); the value is that of the longest prefix of digits of the
  radix, as a Number, and \<open>NaN\<close> when that prefix is empty. The integer is taken
  exactly, also beyond the 20 significant digits after which an implementation may
  approximate it.
\<close>

definition parseInt :: "jsstring \<Rightarrow> jsnum" where
  "parseInt inputString =
     (let S = dropWhile isWhiteSpace inputString;
          neg = (take 1 S = js ''-'');
          S1 = (if take 1 S = js ''+'' \<or> take 1 S = js ''-'' then drop 1 S else S);
          hex = (take 2 S1 = js ''0x'' \<or> take 2 S1 = js ''0X'');
          R = (if hex then 16 else 10);
          S2 = (if hex then drop 2 S1 else S1);
          Z = takeWhile (isRadixDigit R) S2
      in if Z = [] then NaN else integerToNumber neg (mathInt R Z))"

section \<open>Persisted preferences\<close>

text \<open>
  \<open>localStorage\<close> is a string-valued key-value store; \<open>getItem\<close> returns \<open>null\<close>
  (here \<open>None\<close>) for an absent key.
\<close>

type_synonym localStorage = "jsstring \<rightharpoonup> jsstring"

definition getItem :: "localStorage \<Rightarrow> jsstring \<Rightarrow> jsstring option" where
  "getItem ls k = ls k"

text \<open>
  The \<open>useState\<close> initializer of \<open>gameMode\<close>. \<open>window\<close> tells whether
  \<open>typeof window !== 'undefined'\<close>. The cast \<open>saved as BlitzGameMode\<close> does nothing at run
  time, so the mode is a string; \<open>saved || 'Pick'\<close> takes the default for \<open>null\<close>
  and for the empty jsstring.
\<close>

definition initGameMode :: "bool \<Rightarrow> localStorage \<Rightarrow> jsstring \<Rightarrow> jsstring" where
  "initGameMode window ls localStorageKey =
     (if window then
        (case getItem ls (localStorageKey @ js ''_gameMode'') of
           None \<Rightarrow> js ''Pick''
         | Some saved \<Rightarrow> if saved = [] then js ''Pick'' else saved)
      else js ''Pick'')"

text \<open>
  The \<open>useState\<close> initializer of \<open>challengeDuration\<close>:
  \<open>saved ? parseInt(saved) : 60\<close>. The two effects that write the mode and the duration
  back on every change are left out: the store is read at initialisation only.
\<close>

definition initChallengeDuration :: "bool \<Rightarrow> localStorage \<Rightarrow> jsstring \<Rightarrow> jsnum" where
  "initChallengeDuration window ls localStorageKey =
     (if window then
        (case getItem ls localStorageKey of
           None \<Rightarrow> Num 60
         | Some saved \<Rightarrow> if saved = [] then Num 60 else parseInt saved)
      else Num 60)"

section \<open>Configuration, collaborators and component state\<close>

text \<open>
  \<open>TimedChallengeConfig<T>\<close>, with the fields the handlers and effects read. The
  caller's \<open>generateQuestion\<close> and \<open>generateOptions\<close> may draw random numbers: their
  first argument is the number of random draws made so far, so that two calls on the same
  arguments may differ. An absent optional function is \<open>None\<close>; an absent
  \<open>supportsReverseMode\<close> is falsy, hence \<open>False\<close>. A question is an object, so
  that \<open>!currentQuestion\<close> holds for \<open>null\<close> only; questions are compared by HOL
  equality where React compares them by \<open>Object.is\<close>.
\<close>

record 'q config =
  items :: "'q list"
  generateQuestion :: "nat \<Rightarrow> 'q list \<Rightarrow> 'q"
  checkAnswer :: "'q \<Rightarrow> jsstring \<Rightarrow> bool \<Rightarrow> bool"
  getCorrectAnswer :: "'q \<Rightarrow> bool \<Rightarrow> jsstring"
  generateOptions :: "(nat \<Rightarrow> 'q \<Rightarrow> 'q list \<Rightarrow> nat \<Rightarrow> bool \<Rightarrow> jsstring list) option"
  getCorrectOption :: "('q \<Rightarrow> bool \<Rightarrow> jsstring) option"
  supportsReverseMode :: bool

text \<open>
  The run-time environment: \<open>sortRandom n xs\<close> is what
  \<open>[...xs].sort(() => Math.random() - 0.5)\<close> returns at draw \<open>n\<close>, and
  \<open>flipReverse n\<close> tells whether the reverse-mode policy flips its mode at draw \<open>n\<close>.
\<close>

record env =
  sortRandom :: "nat \<Rightarrow> jsstring list \<Rightarrow> jsstring list"
  flipReverse :: "nat \<Rightarrow> bool"

text \<open>
  The counters of \<open>config.stats\<close>; they are numbers in the source and non-negative
  integers by the spec.
\<close>

record stats =
  correct :: nat
  wrong :: nat
  streak :: nat
  bestStreak :: nat

text \<open>The callbacks handed to \<open>setTimeout\<close>, and the calls made to collaborators.\<close>

datatype deferred = StartTimerCb | FocusInputCb | AdvanceQuestionCb | ClearFeedbackCb

datatype call =
    PlayClick | PlayCorrect | PlayError | Confetti
  | StatsReset | StatsIncrementCorrect | StatsIncrementWrong
  | DecideNextMode | ResetReverseStreak
  | ResetGoals | ResetTimer | StartTimer
  | CheckAnswer | GetCorrectOption | GenerateQuestion | GenerateOptions

text \<open>
  The component's \<open>useState\<close> cells, the values it reads from its hooks (\<open>timeLeft\<close>,
  \<open>isRunning\<close>, \<open>stats\<close>, \<open>isReverse\<close>), the timeouts that are scheduled and have not
  fired (delay in milliseconds and callback), the log of calls to collaborators in the
  order they were made, and the number of random draws so far.
\<close>

record 'q state =
  gameMode :: jsstring
  challengeDuration :: jsnum
  currentQuestion :: "'q option"
  userAnswer :: jsstring
  isFinished :: bool
  lastAnswerCorrect :: "bool option"
  shuffledOptions :: "jsstring list"
  wrongSelectedAnswers :: "jsstring list"
  timeLeft :: jsnum
  isRunning :: bool
  stats :: stats
  isReverse :: bool
  pending :: "(nat \<times> deferred) list"
  calls :: "call list"
  rng :: nat

definition logCall :: "call \<Rightarrow> 'q state \<Rightarrow> 'q state" where
  "logCall c s = s\<lparr>calls := calls s @ [c]\<rparr>"

definition setTimeout :: "deferred \<Rightarrow> nat \<Rightarrow> 'q state \<Rightarrow> 'q state" where
  "setTimeout cb ms s = s\<lparr>pending := pending s @ [(ms, cb)]\<rparr>"

text \<open>
  Modelled from the spec: the caller's \<open>stats\<close> object, whose mutators are not in the
  source. A correct answer increments \<open>correct\<close> and \<open>streak\<close> and sets \<open>bestStreak\<close> to
  the maximum of \<open>bestStreak\<close> and \<open>streak\<close>; an incorrect answer increments \<open>wrong\<close>
  and resets \<open>streak\<close> to 0, \<open>bestStreak\<close> unaffected; the score is reset to zero at
  session start.
\<close>

definition stats_incrementCorrect :: "'q state \<Rightarrow> 'q state" where
  "stats_incrementCorrect s =
     logCall StatsIncrementCorrect
       (s\<lparr>stats := (stats s)\<lparr>correct := Suc (correct (stats s)),
                              streak := Suc (streak (stats s)),
                              bestStreak := max (bestStreak (stats s)) (Suc (streak (stats s)))\<rparr>\<rparr>)"

definition stats_incrementWrong :: "'q state \<Rightarrow> 'q state" where
  "stats_incrementWrong s =
     logCall StatsIncrementWrong
       (s\<lparr>stats := (stats s)\<lparr>wrong := Suc (wrong (stats s)), streak := 0\<rparr>\<rparr>)"

definition stats_reset :: "'q state \<Rightarrow> 'q state" where
  "stats_reset s =
     logCall StatsReset (s\<lparr>stats := \<lparr>correct = 0, wrong = 0, streak = 0, bestStreak = 0\<rparr>\<rparr>)"

text \<open>
  Modelled from the spec: the countdown timer hook \<open>useChallengeTimer\<close>, which is not in
  the source. It exposes the remaining whole seconds, a running flag, and start and reset
  operations; the remaining time decreases once running and is clamped at 0. Reset stops
  the countdown and restores the remaining time to the configured duration.
\<close>

definition resetTimer :: "'q state \<Rightarrow> 'q state" where
  "resetTimer s = logCall ResetTimer (s\<lparr>timeLeft := challengeDuration s, isRunning := False\<rparr>)"

definition startTimer :: "'q state \<Rightarrow> 'q state" where
  "startTimer s = logCall StartTimer (s\<lparr>isRunning := True\<rparr>)"

definition tick :: "'q state \<Rightarrow> 'q state" where
  "tick s =
     (if isRunning s then
        (case timeLeft s of
           Num n \<Rightarrow> if 0 < n then s\<lparr>timeLeft := Num (n - 1)\<rparr> else s
         | _ \<Rightarrow> s)
      else s)"

text \<open>
  Modelled from the spec: the reverse-mode policy hook \<open>useSmartReverseMode\<close>, which is
  not in the source. The mutator invoked after a correct answer may flip the mode; the
  one invoked after a wrong answer resets the policy's internal counter without changing
  the mode.
\<close>

definition decideNextMode :: "env \<Rightarrow> 'q state \<Rightarrow> 'q state" where
  "decideNextMode e s =
     logCall DecideNextMode
       (s\<lparr>isReverse := (if flipReverse e (rng s) then \<not> isReverse s else isReverse s),
          rng := Suc (rng s)\<rparr>)"

definition resetReverseStreak :: "'q state \<Rightarrow> 'q state" where
  "resetReverseStreak s = logCall ResetReverseStreak s"

text \<open>\<open>const isReverseActive = supportsReverseMode && isReverse\<close>\<close>

definition isReverseActive :: "'q config \<Rightarrow> 'q state \<Rightarrow> bool" where
  "isReverseActive cfg s = (supportsReverseMode cfg \<and> isReverse s)"

text \<open>\<open>const pickModeSupported = !!(generateOptions && getCorrectOption)\<close>\<close>

definition pickModeSupported :: "'q config \<Rightarrow> bool" where
  "pickModeSupported cfg = (generateOptions cfg \<noteq> None \<and> getCorrectOption cfg \<noteq> None)"

text \<open>\<open>setCurrentQuestion(generateQuestionRef.current(items))\<close>\<close>

definition newQuestion :: "'q config \<Rightarrow> 'q state \<Rightarrow> 'q state" where
  "newQuestion cfg s =
     logCall GenerateQuestion
       (s\<lparr>currentQuestion := Some (generateQuestion cfg (rng s) (items cfg)),
          rng := Suc (rng s)\<rparr>)"

section \<open>Event handlers\<close>

definition handleStart :: "'q config \<Rightarrow> 'q state \<Rightarrow> 'q state" where
  "handleStart cfg s =
     (let s1 = logCall PlayClick s;
          s2 = stats_reset s1;
          s3 = s2\<lparr>isFinished := False\<rparr>;
          s4 = s3\<lparr>userAnswer := []\<rparr>;
          s5 = s4\<lparr>lastAnswerCorrect := None\<rparr>;
          s6 = s5\<lparr>wrongSelectedAnswers := []\<rparr>;
          s7 = newQuestion cfg s6;
          s8 = logCall ResetGoals s7;
          s9 = resetTimer s8;
          s10 = setTimeout StartTimerCb 50 s9
      in setTimeout FocusInputCb 100 s10)"

definition handleCancel :: "'q state \<Rightarrow> 'q state" where
  "handleCancel s =
     (let s1 = logCall PlayClick s;
          s2 = resetTimer s1;
          s3 = s2\<lparr>isFinished := False\<rparr>;
          s4 = s3\<lparr>userAnswer := []\<rparr>;
          s5 = s4\<lparr>lastAnswerCorrect := None\<rparr>
      in s5\<lparr>wrongSelectedAnswers := []\<rparr>)"

text \<open>
  The two branches shared by the Type-mode and the Pick-mode handler differ in one line
  each: the Pick-mode correct branch also clears \<open>wrongSelectedAnswers\<close>, and the
  Type-mode wrong branch also schedules the 800 ms feedback reset.
\<close>

definition handleSubmit :: "'q config \<Rightarrow> env \<Rightarrow> 'q state \<Rightarrow> 'q state" where
  "handleSubmit cfg e s =
     (case currentQuestion s of
        None \<Rightarrow> s
      | Some q \<Rightarrow>
          if trim (userAnswer s) = [] then s
          else
            (let s1 = logCall PlayClick s;
                 isCorrect = checkAnswer cfg q (trim (userAnswer s)) (isReverseActive cfg s);
                 s2 = logCall CheckAnswer s1;
                 s3 = (if isCorrect then
                         (let a1 = logCall PlayCorrect s2;
                              a2 = stats_incrementCorrect a1;
                              a3 = a2\<lparr>lastAnswerCorrect := Some True\<rparr>;
                              a4 = (if supportsReverseMode cfg then decideNextMode e a3 else a3)
                          in setTimeout AdvanceQuestionCb 300 a4)
                       else
                         (let b1 = logCall PlayError s2;
                              b2 = stats_incrementWrong b1;
                              b3 = (if supportsReverseMode cfg then resetReverseStreak b2 else b2);
                              b4 = b3\<lparr>lastAnswerCorrect := Some False\<rparr>
                          in setTimeout ClearFeedbackCb 800 b4))
             in s3\<lparr>userAnswer := []\<rparr>))"

definition handleOptionClick :: "'q config \<Rightarrow> env \<Rightarrow> jsstring \<Rightarrow> 'q state \<Rightarrow> 'q state" where
  "handleOptionClick cfg e selectedOption s =
     (case currentQuestion s of
        None \<Rightarrow> s
      | Some q \<Rightarrow>
          (case getCorrectOption cfg of
             None \<Rightarrow> s
           | Some getCorrect \<Rightarrow>
               (let correctOption = getCorrect q (isReverseActive cfg s);
                    s1 = logCall GetCorrectOption s;
                    isCorrect = (selectedOption = correctOption)
                in if isCorrect then
                     (let a1 = logCall PlayCorrect s1;
                          a2 = stats_incrementCorrect a1;
                          a3 = a2\<lparr>lastAnswerCorrect := Some True\<rparr>;
                          a4 = a3\<lparr>wrongSelectedAnswers := []\<rparr>;
                          a5 = (if supportsReverseMode cfg then decideNextMode e a4 else a4)
                      in setTimeout AdvanceQuestionCb 300 a5)
                   else
                     (let b1 = logCall PlayError s1;
                          b2 = stats_incrementWrong b1;
                          b3 = b2\<lparr>wrongSelectedAnswers := wrongSelectedAnswers b2 @ [selectedOption]\<rparr>;
                          b4 = b3\<lparr>lastAnswerCorrect := Some False\<rparr>
                      in if supportsReverseMode cfg then resetReverseStreak b4 else b4))))"

text \<open>
  A timeout that fires runs its callback and leaves the queue. The focus callback touches
  the DOM only.
\<close>

definition runDeferred :: "'q config \<Rightarrow> deferred \<Rightarrow> 'q state \<Rightarrow> 'q state" where
  "runDeferred cfg cb s =
     (case cb of
        StartTimerCb \<Rightarrow> startTimer s
      | FocusInputCb \<Rightarrow> s
      | AdvanceQuestionCb \<Rightarrow> (newQuestion cfg s)\<lparr>lastAnswerCorrect := None\<rparr>
      | ClearFeedbackCb \<Rightarrow> s\<lparr>lastAnswerCorrect := None\<rparr>)"

definition fire :: "'q config \<Rightarrow> nat \<Rightarrow> 'q state \<Rightarrow> 'q state" where
  "fire cfg i s =
     (if i < length (pending s) then
        runDeferred cfg (snd (pending s ! i))
          (s\<lparr>pending := take i (pending s) @ drop (Suc i) (pending s)\<rparr>)
      else s)"

section \<open>Effects\<close>

text \<open>
  An effect reads the state of the render it belongs to (\<open>r\<close>) and queues updates, which
  are applied to \<open>s\<close>. The options effect has dependencies
  \<open>[currentQuestion, gameMode, isReverseActive]\<close>, the completion effect
  \<open>[timeLeft, isFinished]\<close>.
\<close>

definition optionsEffect :: "'q config \<Rightarrow> env \<Rightarrow> 'q state \<Rightarrow> 'q state \<Rightarrow> 'q state" where
  "optionsEffect cfg e r s =
     (case currentQuestion r of
        None \<Rightarrow> s
      | Some q \<Rightarrow>
          if gameMode r = js ''Pick'' then
            (case generateOptions cfg of
               None \<Rightarrow> s
             | Some gen \<Rightarrow>
                 (let options = gen (rng s) q (items cfg) 3 (isReverseActive cfg r);
                      shuffled = sortRandom e (Suc (rng s)) options
                  in logCall GenerateOptions
                       (s\<lparr>shuffledOptions := shuffled, wrongSelectedAnswers := [],
                          rng := Suc (Suc (rng s))\<rparr>)))
          else s)"

definition finishEffect :: "'q state \<Rightarrow> 'q state \<Rightarrow> 'q state" where
  "finishEffect r s =
     (if timeLeft r = Num 0 \<and> \<not> isFinished r
      then logCall Confetti (s\<lparr>isFinished := True\<rparr>) else s)"

definition optionsDeps :: "'q config \<Rightarrow> 'q state \<Rightarrow> 'q option \<times> jsstring \<times> bool" where
  "optionsDeps cfg s = (currentQuestion s, gameMode s, isReverseActive cfg s)"

definition finishDeps :: "'q state \<Rightarrow> jsnum \<times> bool" where
  "finishDeps s = (timeLeft s, isFinished s)"

text \<open>
  When the effects have something to do: the options effect regenerates the options when
  one of its dependencies changed and its guard holds; the completion effect fires when one
  of its dependencies changed and its guard holds.
\<close>

definition regenerates :: "'q config \<Rightarrow> 'q state \<Rightarrow> 'q state \<Rightarrow> bool" where
  "regenerates cfg prev r =
     (optionsDeps cfg r \<noteq> optionsDeps cfg prev \<and> currentQuestion r \<noteq> None
      \<and> gameMode r = js ''Pick'' \<and> generateOptions cfg \<noteq> None)"

definition completes :: "'q state \<Rightarrow> 'q state \<Rightarrow> bool" where
  "completes prev r =
     (finishDeps r \<noteq> finishDeps prev \<and> timeLeft r = Num 0 \<and> \<not> isFinished r)"

text \<open>
  One render after the render of \<open>prev\<close>: the effects whose dependencies changed run, in
  the order they are declared.
\<close>

definition runEffects :: "'q config \<Rightarrow> env \<Rightarrow> 'q state \<Rightarrow> 'q state \<Rightarrow> 'q state" where
  "runEffects cfg e prev r =
     (let s1 = (if optionsDeps cfg r \<noteq> optionsDeps cfg prev then optionsEffect cfg e r r else r)
      in if finishDeps r \<noteq> finishDeps prev then finishEffect r s1 else s1)"

text \<open>
  The updates queued by effects cause another render, whose effects run in turn; after
  the second render nothing changes any more (lemma \<open>commit_stable\<close>).
\<close>

definition commit :: "'q config \<Rightarrow> env \<Rightarrow> 'q state \<Rightarrow> 'q state \<Rightarrow> 'q state" where
  "commit cfg e prev r = (let s1 = runEffects cfg e prev r in runEffects cfg e r s1)"

section \<open>Mounting\<close>

definition initialRender ::
  "bool \<Rightarrow> localStorage \<Rightarrow> jsstring \<Rightarrow> stats \<Rightarrow> bool \<Rightarrow> 'q state" where
  "initialRender window ls localStorageKey st reverse0 =
     \<lparr>gameMode = initGameMode window ls localStorageKey,
      challengeDuration = initChallengeDuration window ls localStorageKey,
      currentQuestion = None,
      userAnswer = [],
      isFinished = False,
      lastAnswerCorrect = None,
      shuffledOptions = [],
      wrongSelectedAnswers = [],
      timeLeft = initChallengeDuration window ls localStorageKey,
      isRunning = False,
      stats = st,
      isReverse = reverse0,
      pending = [],
      calls = [],
      rng = 0\<rparr>"

text \<open>
  On mount every effect runs. The effect with dependencies \<open>[items]\<close> draws the first
  question when the pool is not empty; it runs on mount only, the pool being fixed.
\<close>

definition mountEffects :: "'q config \<Rightarrow> env \<Rightarrow> 'q state \<Rightarrow> 'q state" where
  "mountEffects cfg e r =
     (let s1 = (if items cfg \<noteq> [] \<and> currentQuestion r = None then newQuestion cfg r else r);
          s2 = optionsEffect cfg e r s1
      in finishEffect r s2)"

definition mount ::
  "'q config \<Rightarrow> env \<Rightarrow> bool \<Rightarrow> localStorage \<Rightarrow> jsstring \<Rightarrow> stats \<Rightarrow> bool \<Rightarrow> 'q state" where
  "mount cfg e window ls localStorageKey st reverse0 =
     (let r = initialRender window ls localStorageKey st reverse0
      in commit cfg e r (mountEffects cfg e r))"

section \<open>Views and events\<close>

text \<open>The four returns of the component, in the order the source tests for them.\<close>

datatype view = EmptyView | PreGame | Finished | Active

definition view :: "'q config \<Rightarrow> 'q state \<Rightarrow> view" where
  "view cfg s =
     (if items cfg = [] then EmptyView
      else if \<not> isRunning s \<and> \<not> isFinished s then PreGame
      else if isFinished s then Finished
      else Active)"

datatype event =
    SelectMode jsstring
  | SelectDuration int
  | Start
  | Cancel
  | ChangeInput jsstring
  | Submit
  | OptionClick nat
  | Tick
  | Fire nat

text \<open>
  An event can happen when the view that is shown renders its control, and the control
  is not disabled: the mode and duration buttons and Start in the pre-game view, Start in
  the results view, Cancel in the running view, the input and its form when
  \<open>gameMode === 'Type'\<close>, the option buttons when \<open>gameMode === 'Pick'\<close> (a rejected
  option is disabled). The digit keys 1 to 3 click the option button of that position, so
  a key press is the click it causes. Timer ticks and timeouts do not depend on the view.
\<close>

definition enabled :: "'q config \<Rightarrow> 'q state \<Rightarrow> event \<Rightarrow> bool" where
  "enabled cfg s ev =
     (case ev of
        SelectMode m \<Rightarrow>
          view cfg s = PreGame \<and> (m = js ''Pick'' \<or> m = js ''Type'')
          \<and> \<not> (m = js ''Pick'' \<and> \<not> pickModeSupported cfg)
      | SelectDuration d \<Rightarrow> view cfg s = PreGame \<and> d \<in> set [30, 60, 90, 120, 180]
      | Start \<Rightarrow> view cfg s = PreGame \<or> view cfg s = Finished
      | Cancel \<Rightarrow> view cfg s = Active
      | ChangeInput v \<Rightarrow> view cfg s = Active \<and> gameMode s = js ''Type''
      | Submit \<Rightarrow> view cfg s = Active \<and> gameMode s = js ''Type''
      | OptionClick i \<Rightarrow>
          view cfg s = Active \<and> gameMode s = js ''Pick'' \<and> i < length (shuffledOptions s)
          \<and> shuffledOptions s ! i \<notin> set (wrongSelectedAnswers s)
      | Tick \<Rightarrow> True
      | Fire i \<Rightarrow> True)"

definition handle :: "'q config \<Rightarrow> env \<Rightarrow> event \<Rightarrow> 'q state \<Rightarrow> 'q state" where
  "handle cfg e ev s =
     (case ev of
        SelectMode m \<Rightarrow> (logCall PlayClick s)\<lparr>gameMode := m\<rparr>
      | SelectDuration d \<Rightarrow> (logCall PlayClick s)\<lparr>challengeDuration := Num d\<rparr>
      | Start \<Rightarrow> handleStart cfg s
      | Cancel \<Rightarrow> handleCancel s
      | ChangeInput v \<Rightarrow> s\<lparr>userAnswer := v\<rparr>
      | Submit \<Rightarrow> handleSubmit cfg e s
      | OptionClick i \<Rightarrow> handleOptionClick cfg e (shuffledOptions s ! i) s
      | Tick \<Rightarrow> tick s
      | Fire i \<Rightarrow> fire cfg i s)"

text \<open>One event: its handler, then the renders and effects that follow.\<close>

definition step :: "'q config \<Rightarrow> env \<Rightarrow> event \<Rightarrow> 'q state \<Rightarrow> 'q state" where
  "step cfg e ev s = (if enabled cfg s ev then commit cfg e s (handle cfg e ev s) else s)"

fun run :: "'q config \<Rightarrow> env \<Rightarrow> event list \<Rightarrow> 'q state \<Rightarrow> 'q state" where
  "run cfg e [] s = s"
| "run cfg e (ev # evs) s = run cfg e evs (step cfg e ev s)"

section \<open>Answers and their outcomes\<close>

text \<open>
  Whether an event is an answer, and whether the answer is correct: the \<open>isCorrect\<close> of
  the handler that the event reaches. A submission with no question or with blank input,
  and a click with no question or no \<open>getCorrectOption\<close>, are not answers.
\<close>

definition submitOutcome :: "'q config \<Rightarrow> 'q state \<Rightarrow> bool option" where
  "submitOutcome cfg s =
     (case currentQuestion s of
        None \<Rightarrow> None
      | Some q \<Rightarrow>
          if trim (userAnswer s) = [] then None
          else Some (checkAnswer cfg q (trim (userAnswer s)) (isReverseActive cfg s)))"

definition clickOutcome :: "'q config \<Rightarrow> jsstring \<Rightarrow> 'q state \<Rightarrow> bool option" where
  "clickOutcome cfg selectedOption s =
     (case currentQuestion s of
        None \<Rightarrow> None
      | Some q \<Rightarrow>
          (case getCorrectOption cfg of
             None \<Rightarrow> None
           | Some getCorrect \<Rightarrow> Some (selectedOption = getCorrect q (isReverseActive cfg s))))"

definition answerOutcome :: "'q config \<Rightarrow> 'q state \<Rightarrow> event \<Rightarrow> bool option" where
  "answerOutcome cfg s ev =
     (if enabled cfg s ev then
        (case ev of
           Submit \<Rightarrow> submitOutcome cfg s
         | OptionClick i \<Rightarrow> clickOutcome cfg (shuffledOptions s ! i) s
         | _ \<Rightarrow> None)
      else None)"

text \<open>The outcomes of the answers given along a run, in order.\<close>

fun outcomes :: "'q config \<Rightarrow> env \<Rightarrow> event list \<Rightarrow> 'q state \<Rightarrow> bool list" where
  "outcomes cfg e [] s = []"
| "outcomes cfg e (ev # evs) s =
     (case answerOutcome cfg s ev of None \<Rightarrow> [] | Some b \<Rightarrow> [b])
     @ outcomes cfg e evs (step cfg e ev s)"

section \<open>A small configuration\<close>

text \<open>
  Five kana with their romanisation, drawn in rotation; an answer is the romanisation,
  or the kana itself in reverse mode. The options are the correct answer followed by the
  answers of other kana; they keep their order and the reverse-mode policy never flips.
  The component is mounted with nothing stored.
\<close>

definition kanaItems :: "(jsstring \<times> jsstring) list" where
  "kanaItems =
     [(js ''A'', js ''a''), (js ''KA'', js ''ka''), (js ''SA'', js ''sa''), (js ''TA'', js ''ta''),
      (js ''NA'', js ''na'')]"

definition kanaAnswer :: "jsstring \<times> jsstring \<Rightarrow> bool \<Rightarrow> jsstring" where
  "kanaAnswer q r = (if r then fst q else snd q)"

definition kanaConfig :: "(jsstring \<times> jsstring) config" where
  "kanaConfig =
     \<lparr>items = kanaItems,
      generateQuestion = (\<lambda>n xs. xs ! (n mod length xs)),
      checkAnswer = (\<lambda>q a r. a = kanaAnswer q r),
      getCorrectAnswer = kanaAnswer,
      generateOptions =
        Some (\<lambda>n q xs k r.
                take k (kanaAnswer q r # map (\<lambda>x. kanaAnswer x r) (filter (\<lambda>x. x \<noteq> q) xs))),
      getCorrectOption = Some kanaAnswer,
      supportsReverseMode = True\<rparr>"

definition plainEnv :: env where
  "plainEnv = \<lparr>sortRandom = (\<lambda>n xs. xs), flipReverse = (\<lambda>n. False)\<rparr>"

definition zeroStats :: stats where
  "zeroStats = \<lparr>correct = 0, wrong = 0, streak = 0, bestStreak = 0\<rparr>"

definition nothingStored :: localStorage where
  "nothingStored = Map.empty"

definition kanaMounted :: "(jsstring \<times> jsstring) state" where
  "kanaMounted = mount kanaConfig plainEnv True nothingStored (js ''blitz'') zeroStats False"

text \<open>A running Pick-mode session: Start, then the two timeouts of Start fire.\<close>

definition kanaRunning :: "(jsstring \<times> jsstring) state" where
  "kanaRunning = run kanaConfig plainEnv [Start, Fire 0, Fire 0] kanaMounted"

text \<open>
  The same session after a correct pick, the next question and a wrong pick: the score is
  not zero and an option is rejected.
\<close>

definition kanaScored :: "(jsstring \<times> jsstring) state" where
  "kanaScored = run kanaConfig plainEnv [OptionClick 0, Fire 0, OptionClick 1] kanaRunning"

text \<open>The same session one second before its time is up.\<close>

definition kanaLastSecond :: "(jsstring \<times> jsstring) state" where
  "kanaLastSecond = run kanaConfig plainEnv (replicate 59 Tick) kanaRunning"

text \<open>The same configuration with nothing selected.\<close>

definition noItems :: "(jsstring \<times> jsstring) config" where
  "noItems = kanaConfig\<lparr>items := []\<rparr>"

text \<open>
  Nine events of the running Pick-mode session: four correct picks, each followed by the
  timeout that brings the next question, and then a wrong pick.
\<close>

definition fourRightOneWrong :: "event list" where
  "fourRightOneWrong =
     [OptionClick 0, Fire 0, OptionClick 0, Fire 0, OptionClick 0, Fire 0, OptionClick 0, Fire 0,
      OptionClick 1]"

text \<open>An environment in which the reverse-mode policy flips its mode at every draw.\<close>

definition flippingEnv :: env where
  "flippingEnv = \<lparr>sortRandom = (\<lambda>n xs. xs), flipReverse = (\<lambda>n. True)\<rparr>"

text \<open>The mounted component after the Type button of the pre-game view was clicked.\<close>

definition kanaTypeSelected :: "(jsstring \<times> jsstring) state" where
  "kanaTypeSelected = step kanaConfig plainEnv (SelectMode (js ''Type'')) kanaMounted"

text \<open>
  A correct pick, whose 300 ms timeout is still pending when the session is cancelled;
  and a correct pick in the last second, whose timeout is still pending when the time is
  up, the session is restarted from the results view and the new countdown has started.
\<close>

definition staleAfterCancel :: "(jsstring \<times> jsstring) state" where
  "staleAfterCancel = run kanaConfig plainEnv [OptionClick 0, Cancel] kanaRunning"

definition staleAfterRestart :: "(jsstring \<times> jsstring) state" where
  "staleAfterRestart = run kanaConfig plainEnv [OptionClick 0, Tick, Start, Fire 1] kanaLastSecond"

text \<open>A store whose two values are not what the component writes.\<close>

definition corruptStore :: localStorage where
  "corruptStore = [js ''blitz'' \<mapsto> js ''abc'', js ''blitz_gameMode'' \<mapsto> js ''Hard'']"

text \<open>
  A Type-mode session in which a wrong answer was submitted, a new session was started
  within the 800 ms of its feedback, and a wrong answer was submitted there too.
\<close>

definition staleFeedback :: "(jsstring \<times> jsstring) state" where
  "staleFeedback =
     run kanaConfig plainEnv
       [SelectMode (js ''Type''), Start, Fire 0, Fire 0, ChangeInput (js ''x''), Submit,
        Cancel, Start, Fire 1, ChangeInput (js ''y''), Submit]
       kanaMounted"

section \<open>Accuracy\<close>

text \<open>\<open>Math.round\<close> returns the nearest integer and rounds a half upwards.\<close>

definition Math_round :: "rat \<Rightarrow> int" where
  "Math_round x = \<lfloor>x + 1 / 2\<rfloor>"

text \<open>
  \<open>const totalAnswers = stats.correct + stats.wrong\<close> and
  \<open>totalAnswers > 0 ? Math.round((stats.correct / totalAnswers) * 100) : 0\<close>. The counts
  are natural numbers below \<open>2 ^ 53\<close>, which are doubles, and so is their sum.
\<close>

definition accuracy :: "stats \<Rightarrow> int" where
  "accuracy st =
     (let totalAnswers = correct st + wrong st
      in if 0 < totalAnswers
         then Math_round (fl (fl (of_nat (correct st) / of_nat totalAnswers) * 100))
         else 0)"

text \<open>
  The accuracy in the spec's words, \<open>round(correct / (correct + wrong) * 100)\<close> and 0
  when no answer has been given, over the rationals; and when the percentage lies exactly
  halfway between two integers.
\<close>

definition accuracySpec :: "stats \<Rightarrow> int" where
  "accuracySpec st =
     (if 0 < correct st + wrong st
      then round (of_nat (correct st) / of_nat (correct st + wrong st) * 100 :: rat)
      else 0)"

definition halfway :: "stats \<Rightarrow> bool" where
  "halfway st =
     ((200 * correct st + (correct st + wrong st)) mod (2 * (correct st + wrong st)) = 0)"

text \<open>Two scores: 23 right out of 40, and 7 right out of 10.\<close>

definition score23of40 :: stats where
  "score23of40 = \<lparr>correct = 23, wrong = 17, streak = 0, bestStreak = 9\<rparr>"

definition score7of10 :: stats where
  "score7of10 = \<lparr>correct = 7, wrong = 3, streak = 2, bestStreak = 4\<rparr>"

section \<open>Basic facts about effects and handlers\<close>

text \<open>What each effect and handler leaves alone, and what it logs.\<close>

lemmas prim_defs = logCall_def setTimeout_def stats_incrementCorrect_def stats_incrementWrong_def
  stats_reset_def resetTimer_def startTimer_def decideNextMode_def resetReverseStreak_def
  newQuestion_def

lemma optionsEffect_frame:
  "stats (optionsEffect cfg e r s) = stats s"
  "isRunning (optionsEffect cfg e r s) = isRunning s"
  "userAnswer (optionsEffect cfg e r s) = userAnswer s"
  "lastAnswerCorrect (optionsEffect cfg e r s) = lastAnswerCorrect s"
  "currentQuestion (optionsEffect cfg e r s) = currentQuestion s"
  "gameMode (optionsEffect cfg e r s) = gameMode s"
  "challengeDuration (optionsEffect cfg e r s) = challengeDuration s"
  "timeLeft (optionsEffect cfg e r s) = timeLeft s"
  "isReverse (optionsEffect cfg e r s) = isReverse s"
  "pending (optionsEffect cfg e r s) = pending s"
  "isFinished (optionsEffect cfg e r s) = isFinished s"
  by (simp_all add: optionsEffect_def Let_def logCall_def split: option.splits)

lemma finishEffect_frame:
  "stats (finishEffect r s) = stats s"
  "isRunning (finishEffect r s) = isRunning s"
  "userAnswer (finishEffect r s) = userAnswer s"
  "lastAnswerCorrect (finishEffect r s) = lastAnswerCorrect s"
  "currentQuestion (finishEffect r s) = currentQuestion s"
  "gameMode (finishEffect r s) = gameMode s"
  "challengeDuration (finishEffect r s) = challengeDuration s"
  "timeLeft (finishEffect r s) = timeLeft s"
  "isReverse (finishEffect r s) = isReverse s"
  "pending (finishEffect r s) = pending s"
  "shuffledOptions (finishEffect r s) = shuffledOptions s"
  "wrongSelectedAnswers (finishEffect r s) = wrongSelectedAnswers s"
  "rng (finishEffect r s) = rng s"
  by (simp_all add: finishEffect_def logCall_def)

lemma runEffects_frame:
  "stats (runEffects cfg e prev r) = stats r"
  "isRunning (runEffects cfg e prev r) = isRunning r"
  "userAnswer (runEffects cfg e prev r) = userAnswer r"
  "lastAnswerCorrect (runEffects cfg e prev r) = lastAnswerCorrect r"
  "currentQuestion (runEffects cfg e prev r) = currentQuestion r"
  "gameMode (runEffects cfg e prev r) = gameMode r"
  "challengeDuration (runEffects cfg e prev r) = challengeDuration r"
  "timeLeft (runEffects cfg e prev r) = timeLeft r"
  "isReverse (runEffects cfg e prev r) = isReverse r"
  "pending (runEffects cfg e prev r) = pending r"
  by (simp_all add: runEffects_def Let_def optionsEffect_frame finishEffect_frame)

lemma runEffects_deps:
  "optionsDeps cfg (runEffects cfg e prev r) = optionsDeps cfg r"
  by (simp add: optionsDeps_def isReverseActive_def runEffects_frame)

lemma runEffects_isFinished:
  "isFinished (runEffects cfg e prev r) = (isFinished r \<or> completes prev r)"
  by (auto simp add: runEffects_def Let_def finishEffect_def logCall_def optionsEffect_frame
      completes_def)

lemma optionsEffect_calls:
  "calls (optionsEffect cfg e r s) =
     calls s @ (if currentQuestion r \<noteq> None \<and> gameMode r = js ''Pick'' \<and> generateOptions cfg \<noteq> None
                then [GenerateOptions] else [])"
  by (simp add: optionsEffect_def Let_def logCall_def split: option.splits)

lemma optionsEffect_wrong:
  "wrongSelectedAnswers (optionsEffect cfg e r s) =
     (if currentQuestion r \<noteq> None \<and> gameMode r = js ''Pick'' \<and> generateOptions cfg \<noteq> None
      then [] else wrongSelectedAnswers s)"
  by (simp add: optionsEffect_def Let_def logCall_def split: option.splits)

lemma finishEffect_calls:
  "calls (finishEffect r s) =
     calls s @ (if timeLeft r = Num 0 \<and> \<not> isFinished r then [Confetti] else [])"
  by (simp add: finishEffect_def logCall_def)

lemma runEffects_calls:
  "calls (runEffects cfg e prev r) =
     calls r @ (if regenerates cfg prev r then [GenerateOptions] else [])
             @ (if completes prev r then [Confetti] else [])"
  by (simp add: runEffects_def Let_def optionsEffect_calls finishEffect_calls
      regenerates_def completes_def)

lemma runEffects_wrong:
  "wrongSelectedAnswers (runEffects cfg e prev r) =
     (if regenerates cfg prev r then [] else wrongSelectedAnswers r)"
  by (auto simp add: runEffects_def Let_def optionsEffect_wrong finishEffect_frame regenerates_def)

lemma commit_eq: "commit cfg e prev r = runEffects cfg e prev r"
proof -
  let ?s1 = "runEffects cfg e prev r"
  have a: "optionsDeps cfg ?s1 = optionsDeps cfg r" by (rule runEffects_deps)
  have b: "finishDeps ?s1 \<noteq> finishDeps r \<Longrightarrow> finishEffect ?s1 ?s1 = ?s1"
    by (auto simp add: finishEffect_def runEffects_isFinished runEffects_frame finishDeps_def)
  show ?thesis
    unfolding commit_def Let_def
    by (subst runEffects_def) (simp add: Let_def a b)
qed

lemma commit_stable:
  "runEffects cfg e (runEffects cfg e prev r) (commit cfg e prev r) = commit cfg e prev r"
proof -
  show ?thesis
    unfolding commit_eq by (subst runEffects_def) (simp add: Let_def)
qed

lemma handleCancel_fields:
  "stats (handleCancel s) = stats s"
  "isRunning (handleCancel s) = False"
  "userAnswer (handleCancel s) = []"
  "lastAnswerCorrect (handleCancel s) = None"
  "wrongSelectedAnswers (handleCancel s) = []"
  "isFinished (handleCancel s) = False"
  "timeLeft (handleCancel s) = challengeDuration s"
  "pending (handleCancel s) = pending s"
  "currentQuestion (handleCancel s) = currentQuestion s"
  "gameMode (handleCancel s) = gameMode s"
  "isReverse (handleCancel s) = isReverse s"
  "calls (handleCancel s) = calls s @ [PlayClick, ResetTimer]"
  by (simp_all add: handleCancel_def Let_def prim_defs)

lemma handleStart_fields:
  "stats (handleStart cfg s) = \<lparr>correct = 0, wrong = 0, streak = 0, bestStreak = 0\<rparr>"
  "isRunning (handleStart cfg s) = False"
  "userAnswer (handleStart cfg s) = []"
  "lastAnswerCorrect (handleStart cfg s) = None"
  "wrongSelectedAnswers (handleStart cfg s) = []"
  "isFinished (handleStart cfg s) = False"
  "timeLeft (handleStart cfg s) = challengeDuration s"
  "pending (handleStart cfg s) = pending s @ [(50, StartTimerCb), (100, FocusInputCb)]"
  "currentQuestion (handleStart cfg s) = Some (generateQuestion cfg (rng s) (items cfg))"
  "gameMode (handleStart cfg s) = gameMode s"
  "isReverse (handleStart cfg s) = isReverse s"
  "calls (handleStart cfg s) =
     calls s @ [PlayClick, StatsReset, GenerateQuestion, ResetGoals, ResetTimer]"
  by (simp_all add: handleStart_def Let_def prim_defs)

lemma tick_fields:
  "stats (tick s) = stats s"
  "isRunning (tick s) = isRunning s"
  "userAnswer (tick s) = userAnswer s"
  "lastAnswerCorrect (tick s) = lastAnswerCorrect s"
  "wrongSelectedAnswers (tick s) = wrongSelectedAnswers s"
  "isFinished (tick s) = isFinished s"
  "pending (tick s) = pending s"
  "currentQuestion (tick s) = currentQuestion s"
  "gameMode (tick s) = gameMode s"
  "isReverse (tick s) = isReverse s"
  "calls (tick s) = calls s"
  by (simp_all add: tick_def split: jsnum.splits)

lemma handleSubmit_fields:
  "isRunning (handleSubmit cfg e s) = isRunning s"
  "wrongSelectedAnswers (handleSubmit cfg e s) = wrongSelectedAnswers s"
  "isFinished (handleSubmit cfg e s) = isFinished s"
  "timeLeft (handleSubmit cfg e s) = timeLeft s"
  "currentQuestion (handleSubmit cfg e s) = currentQuestion s"
  "gameMode (handleSubmit cfg e s) = gameMode s"
  by (simp_all add: handleSubmit_def Let_def prim_defs split: option.splits)

lemma handleOptionClick_fields:
  "isRunning (handleOptionClick cfg e opt s) = isRunning s"
  "isFinished (handleOptionClick cfg e opt s) = isFinished s"
  "timeLeft (handleOptionClick cfg e opt s) = timeLeft s"
  "currentQuestion (handleOptionClick cfg e opt s) = currentQuestion s"
  "gameMode (handleOptionClick cfg e opt s) = gameMode s"
  "userAnswer (handleOptionClick cfg e opt s) = userAnswer s"
  by (simp_all add: handleOptionClick_def Let_def prim_defs split: option.splits)

lemma runDeferred_fields:
  "stats (runDeferred cfg cb s) = stats s"
  "isFinished (runDeferred cfg cb s) = isFinished s"
  "timeLeft (runDeferred cfg cb s) = timeLeft s"
  "gameMode (runDeferred cfg cb s) = gameMode s"
  "userAnswer (runDeferred cfg cb s) = userAnswer s"
  "isReverse (runDeferred cfg cb s) = isReverse s"
  "wrongSelectedAnswers (runDeferred cfg cb s) = wrongSelectedAnswers s"
  "challengeDuration (runDeferred cfg cb s) = challengeDuration s"
  "pending (runDeferred cfg cb s) = pending s"
  by (simp_all add: runDeferred_def prim_defs split: deferred.splits)

lemma fire_fields:
  "stats (fire cfg i s) = stats s"
  "isFinished (fire cfg i s) = isFinished s"
  "timeLeft (fire cfg i s) = timeLeft s"
  "gameMode (fire cfg i s) = gameMode s"
  "userAnswer (fire cfg i s) = userAnswer s"
  "isReverse (fire cfg i s) = isReverse s"
  "wrongSelectedAnswers (fire cfg i s) = wrongSelectedAnswers s"
  "challengeDuration (fire cfg i s) = challengeDuration s"
  by (simp_all add: fire_def runDeferred_fields)

lemma step_unfold:
  "step cfg e ev s = (if enabled cfg s ev then runEffects cfg e s (handle cfg e ev s) else s)"
  by (simp add: step_def commit_eq)

lemma handleSubmit_calls:
  "calls (handleSubmit cfg e s) =
     calls s @
     (case submitOutcome cfg s of
        None \<Rightarrow> []
      | Some True \<Rightarrow>
          [PlayClick, CheckAnswer, PlayCorrect, StatsIncrementCorrect]
          @ (if supportsReverseMode cfg then [DecideNextMode] else [])
      | Some False \<Rightarrow>
          [PlayClick, CheckAnswer, PlayError, StatsIncrementWrong]
          @ (if supportsReverseMode cfg then [ResetReverseStreak] else []))"
  by (simp add: handleSubmit_def submitOutcome_def Let_def prim_defs split: option.splits)

lemma handleOptionClick_calls:
  "calls (handleOptionClick cfg e opt s) =
     calls s @
     (case clickOutcome cfg opt s of
        None \<Rightarrow> []
      | Some True \<Rightarrow>
          [GetCorrectOption, PlayCorrect, StatsIncrementCorrect]
          @ (if supportsReverseMode cfg then [DecideNextMode] else [])
      | Some False \<Rightarrow>
          [GetCorrectOption, PlayError, StatsIncrementWrong]
          @ (if supportsReverseMode cfg then [ResetReverseStreak] else []))"
  by (simp add: handleOptionClick_def clickOutcome_def Let_def prim_defs split: option.splits)

lemma fire_calls:
  "calls (fire cfg i s) =
     calls s @
     (if i < length (pending s) then
        (case snd (pending s ! i) of
           StartTimerCb \<Rightarrow> [StartTimer]
         | AdvanceQuestionCb \<Rightarrow> [GenerateQuestion]
         | _ \<Rightarrow> [])
      else [])"
  by (simp add: fire_def runDeferred_def prim_defs split: deferred.splits)

text \<open>No handler fires the completion effect or regenerates the options; only Start resets the score.\<close>

lemma handle_count_StatsReset:
  "ev \<noteq> Start \<Longrightarrow>
     count_list (calls (handle cfg e ev s)) StatsReset = count_list (calls s) StatsReset"
  by (cases ev)
     (simp_all add: handle_def handleStart_fields handleCancel_fields tick_fields logCall_def
        handleSubmit_calls handleOptionClick_calls fire_calls
        split: option.splits bool.splits deferred.splits)

lemma handle_count_Confetti:
  "count_list (calls (handle cfg e ev s)) Confetti = count_list (calls s) Confetti"
  by (cases ev)
     (simp_all add: handle_def handleStart_fields handleCancel_fields tick_fields logCall_def
        handleSubmit_calls handleOptionClick_calls fire_calls
        split: option.splits bool.splits deferred.splits)

lemma handle_count_GenerateOptions:
  "count_list (calls (handle cfg e ev s)) GenerateOptions = count_list (calls s) GenerateOptions"
  by (cases ev)
     (simp_all add: handle_def handleStart_fields handleCancel_fields tick_fields logCall_def
        handleSubmit_calls handleOptionClick_calls fire_calls
        split: option.splits bool.splits deferred.splits)

lemma step_count_StatsReset:
  "ev \<noteq> Start \<Longrightarrow>
     count_list (calls (step cfg e ev s)) StatsReset = count_list (calls s) StatsReset"
  by (simp add: step_unfold runEffects_calls handle_count_StatsReset)

section \<open>Facts about single steps\<close>

lemma step_Cancel:
  "view cfg s = Active \<Longrightarrow> step cfg e Cancel s = runEffects cfg e s (handleCancel s)"
  by (simp add: step_unfold enabled_def handle_def)

lemma step_Start:
  "enabled cfg s Start \<Longrightarrow> step cfg e Start s = runEffects cfg e s (handleStart cfg s)"
  by (simp add: step_unfold handle_def)

lemma enabled_Start_after_Cancel:
  "view cfg s = Active \<Longrightarrow> enabled cfg (step cfg e Cancel s) Start"
  by (simp add: step_Cancel enabled_def view_def runEffects_frame runEffects_isFinished
      handleCancel_fields split: if_splits)

lemma handle_isFinished:
  "ev \<noteq> Start \<Longrightarrow> ev \<noteq> Cancel \<Longrightarrow> isFinished (handle cfg e ev s) = isFinished s"
  by (cases ev)
     (simp_all add: handle_def logCall_def handleSubmit_fields handleOptionClick_fields
        tick_fields fire_fields)

text \<open>Once finished, a session stays finished and fires no completion effect until Start.\<close>

lemma finished_step:
  assumes "isFinished s" "ev \<noteq> Start"
  shows "isFinished (step cfg e ev s)
       \<and> count_list (calls (step cfg e ev s)) Confetti = count_list (calls s) Confetti"
proof (cases "enabled cfg s ev")
  case False
  then show ?thesis using assms by (simp add: step_unfold)
next
  case True
  with assms have nc: "ev \<noteq> Cancel"
    by (auto simp: enabled_def view_def split: if_splits)
  have f: "isFinished (handle cfg e ev s)"
    using assms nc by (simp add: handle_isFinished)
  show ?thesis
    using True f
    by (simp add: step_unfold runEffects_isFinished runEffects_calls completes_def
        handle_count_Confetti)
qed

lemma finished_run:
  "isFinished s \<Longrightarrow> Start \<notin> set evs \<Longrightarrow>
     isFinished (run cfg e evs s)
     \<and> count_list (calls (run cfg e evs s)) Confetti = count_list (calls s) Confetti"
proof (induction evs arbitrary: s)
  case Nil
  then show ?case by simp
next
  case (Cons ev evs)
  from Cons.prems have a: "ev \<noteq> Start" and b: "Start \<notin> set evs" by auto
  from finished_step [OF Cons.prems(1) a, of cfg e]
  have c: "isFinished (step cfg e ev s)"
    and d: "count_list (calls (step cfg e ev s)) Confetti = count_list (calls s) Confetti"
    by simp_all
  from Cons.IH [OF c b] d show ?case by simp
qed

lemma last_tick:
  assumes "isRunning s" "\<not> isFinished s" "timeLeft s = Num 1"
  shows "timeLeft (step cfg e Tick s) = Num 0"
    and "isFinished (step cfg e Tick s)"
    and "count_list (calls (step cfg e Tick s)) Confetti = Suc (count_list (calls s) Confetti)"
proof -
  have t: "timeLeft (tick s) = Num 0" using assms by (simp add: tick_def)
  have c: "completes s (tick s)"
    using assms t by (simp add: completes_def finishDeps_def tick_fields)
  have s: "step cfg e Tick s = runEffects cfg e s (tick s)"
    by (simp add: step_unfold enabled_def handle_def)
  show "timeLeft (step cfg e Tick s) = Num 0" by (simp add: s runEffects_frame t)
  show "isFinished (step cfg e Tick s)" by (simp add: s runEffects_isFinished c)
  show "count_list (calls (step cfg e Tick s)) Confetti = Suc (count_list (calls s) Confetti)"
    by (simp add: s runEffects_calls c tick_fields)
qed

section \<open>Completion fires once\<close>

text \<open>
  Claim C4. In a running session whose remaining time goes from one second to zero, the
  tick sets \<open>isFinished\<close> and calls the particle effect once. Whatever happens afterwards
  short of a new Start (further ticks at zero, timeouts that fire, clicks), the session
  stays finished and the particle effect has still been called exactly once more than
  before the tick; running the completion effect again on the resulting state changes
  nothing.
\<close>

theorem finish_fires_once:
  assumes "view cfg s = Active" "timeLeft s = Num 1" "Start \<notin> set evs"
  shows "timeLeft (step cfg e Tick s) = Num 0
       \<and> isFinished (step cfg e Tick s)
       \<and> count_list (calls (step cfg e Tick s)) Confetti = Suc (count_list (calls s) Confetti)
       \<and> isFinished (run cfg e evs (step cfg e Tick s))
       \<and> count_list (calls (run cfg e evs (step cfg e Tick s))) Confetti
           = Suc (count_list (calls s) Confetti)
       \<and> finishEffect (run cfg e evs (step cfg e Tick s)) (run cfg e evs (step cfg e Tick s))
           = run cfg e evs (step cfg e Tick s)"
proof -
  from assms(1) have r: "isRunning s" and nf: "\<not> isFinished s"
    by (simp_all add: view_def split: if_splits)
  note lt = last_tick [OF r nf assms(2), of cfg e]
  note fr = finished_run [OF lt(2) assms(3), of cfg e]
  show ?thesis using lt fr by (simp add: finishEffect_def)
qed

theorem finish_fires_once_witness:
  "view kanaConfig kanaLastSecond = Active
   \<and> timeLeft kanaLastSecond = Num 1
   \<and> Start \<notin> set [Tick, Tick, Fire 0, Tick]
   \<and> isFinished (step kanaConfig plainEnv Tick kanaLastSecond)
   \<and> count_list (calls (step kanaConfig plainEnv Tick kanaLastSecond)) Confetti
       = Suc (count_list (calls kanaLastSecond) Confetti)
   \<and> count_list
        (calls (run kanaConfig plainEnv [Tick, Tick, Fire 0, Tick]
                  (step kanaConfig plainEnv Tick kanaLastSecond))) Confetti
       = Suc (count_list (calls kanaLastSecond) Confetti)"
proof -
  have h1: "view kanaConfig kanaLastSecond = Active" by code_simp
  have h2: "timeLeft kanaLastSecond = Num 1" by code_simp
  have h3: "Start \<notin> set [Tick, Tick, Fire 0, Tick]" by simp
  show ?thesis
    using h1 h2 h3 finish_fires_once [OF h1 h2 h3, of plainEnv] by simp
qed

section \<open>Cancelling\<close>

text \<open>
  Claim C9. Cancel in the running view stops the countdown and clears the answer being
  typed, the feedback and the rejected options; it leaves \<open>correct\<close>, \<open>wrong\<close>,
  \<open>streak\<close> and \<open>bestStreak\<close> as they are and does not call the score's reset. The Start
  that follows resets the score to zero, and no event other than Start ever calls the
  score's reset.
\<close>

theorem cancel_leaves_score:
  assumes "view cfg s = Active"
  shows "stats (step cfg e Cancel s) = stats s
       \<and> \<not> isRunning (step cfg e Cancel s)
       \<and> userAnswer (step cfg e Cancel s) = []
       \<and> lastAnswerCorrect (step cfg e Cancel s) = None
       \<and> wrongSelectedAnswers (step cfg e Cancel s) = []
       \<and> count_list (calls (step cfg e Cancel s)) StatsReset = count_list (calls s) StatsReset
       \<and> stats (step cfg e Start (step cfg e Cancel s))
           = \<lparr>correct = 0, wrong = 0, streak = 0, bestStreak = 0\<rparr>
       \<and> (ev \<noteq> Start \<longrightarrow>
            count_list (calls (step cfg e ev x)) StatsReset = count_list (calls x) StatsReset)"
proof -
  have c: "step cfg e Cancel s = runEffects cfg e s (handleCancel s)"
    using assms by (rule step_Cancel)
  have "stats (step cfg e Start (step cfg e Cancel s))
           = \<lparr>correct = 0, wrong = 0, streak = 0, bestStreak = 0\<rparr>"
    using enabled_Start_after_Cancel [OF assms, of e]
    by (simp add: step_Start runEffects_frame handleStart_fields)
  moreover have "count_list (calls (step cfg e Cancel s)) StatsReset = count_list (calls s) StatsReset"
    by (rule step_count_StatsReset) simp
  moreover have "wrongSelectedAnswers (step cfg e Cancel s) = []"
    by (simp add: c runEffects_wrong handleCancel_fields)
  ultimately show ?thesis
    by (simp add: c runEffects_frame handleCancel_fields step_count_StatsReset)
qed

theorem cancel_leaves_score_witness:
  "view kanaConfig kanaScored = Active
   \<and> stats kanaScored = \<lparr>correct = 1, wrong = 1, streak = 0, bestStreak = 1\<rparr>
   \<and> wrongSelectedAnswers kanaScored \<noteq> []
   \<and> lastAnswerCorrect kanaScored = Some False
   \<and> stats (step kanaConfig plainEnv Cancel kanaScored)
       = \<lparr>correct = 1, wrong = 1, streak = 0, bestStreak = 1\<rparr>
   \<and> \<not> isRunning (step kanaConfig plainEnv Cancel kanaScored)
   \<and> wrongSelectedAnswers (step kanaConfig plainEnv Cancel kanaScored) = []
   \<and> lastAnswerCorrect (step kanaConfig plainEnv Cancel kanaScored) = None
   \<and> stats (step kanaConfig plainEnv Start (step kanaConfig plainEnv Cancel kanaScored))
       = zeroStats
   \<and> Tick \<noteq> Start
   \<and> count_list (calls (step kanaConfig plainEnv Tick kanaScored)) StatsReset
       = count_list (calls kanaScored) StatsReset"
proof -
  have h: "view kanaConfig kanaScored = Active" by code_simp
  have v1: "stats kanaScored = \<lparr>correct = 1, wrong = 1, streak = 0, bestStreak = 1\<rparr>"
    by code_simp
  have v2: "wrongSelectedAnswers kanaScored \<noteq> []" by code_simp
  have v3: "lastAnswerCorrect kanaScored = Some False" by code_simp
  show ?thesis
    using h v1 v2 v3 cancel_leaves_score [OF h, of plainEnv Tick kanaScored]
    by (simp add: zeroStats_def)
qed

section \<open>The empty pool\<close>

text \<open>With an empty pool no control is rendered: only ticks and timeouts happen.\<close>

lemma empty_enabled:
  "items cfg = [] \<Longrightarrow> enabled cfg s ev \<Longrightarrow> ev = Tick \<or> (\<exists>i. ev = Fire i)"
  by (cases ev) (simp_all add: enabled_def view_def)

lemma empty_step:
  assumes "items cfg = []" "\<not> isRunning s" "pending s = []"
  shows "\<not> isRunning (step cfg e ev s) \<and> pending (step cfg e ev s) = []"
proof (cases "enabled cfg s ev")
  case False
  then show ?thesis using assms by (simp add: step_unfold)
next
  case True
  from empty_enabled [OF assms(1) True] show ?thesis
  proof
    assume "ev = Tick"
    then show ?thesis
      using assms by (simp add: step_unfold handle_def runEffects_frame tick_fields)
  next
    assume "\<exists>i. ev = Fire i"
    then obtain i where "ev = Fire i" ..
    then show ?thesis
      using assms by (simp add: step_unfold handle_def runEffects_frame fire_def)
  qed
qed

lemma empty_run:
  "items cfg = [] \<Longrightarrow> \<not> isRunning s \<Longrightarrow> pending s = [] \<Longrightarrow>
     \<not> isRunning (run cfg e evs s) \<and> pending (run cfg e evs s) = []"
proof (induction evs arbitrary: s)
  case Nil
  then show ?case by simp
next
  case (Cons ev evs)
  from empty_step [OF Cons.prems, of e ev]
  have a: "\<not> isRunning (step cfg e ev s)" and b: "pending (step cfg e ev s) = []"
    by simp_all
  from Cons.IH [OF Cons.prems(1) a b] show ?case by simp
qed

lemma empty_mount:
  assumes "items cfg = []"
  shows "\<not> isRunning (mount cfg e window ls k st r0)"
    and "pending (mount cfg e window ls k st r0) = []"
  using assms
  by (simp_all add: mount_def Let_def commit_eq runEffects_frame mountEffects_def
      finishEffect_frame optionsEffect_frame initialRender_def)

text \<open>
  Claim C8. With an empty item pool the view is the empty one in every state, whatever
  the mode, the duration and the timer are: never the pre-game, the running or the
  results view. Once mounted, whatever was stored and whatever events follow, the
  countdown never runs.
\<close>

theorem empty_pool_stays_empty:
  assumes "items cfg = []"
  shows "view cfg s = EmptyView
       \<and> view cfg (run cfg e evs (mount cfg e window ls k st r0)) = EmptyView
       \<and> \<not> isRunning (run cfg e evs (mount cfg e window ls k st r0))"
  using assms empty_run [OF assms empty_mount [OF assms], of e evs e window ls k st r0]
  by (simp add: view_def)

theorem empty_pool_stays_empty_witness:
  "items noItems = []
   \<and> view noItems
        (run noItems plainEnv [Start, Fire 0, Tick, SelectMode (js ''Type''), Submit]
           (mount noItems plainEnv True nothingStored (js ''blitz'') zeroStats False)) = EmptyView
   \<and> \<not> isRunning
        (run noItems plainEnv [Start, Fire 0, Tick, SelectMode (js ''Type''), Submit]
           (mount noItems plainEnv True nothingStored (js ''blitz'') zeroStats False))"
proof -
  have h: "items noItems = []" by (simp add: noItems_def)
  show ?thesis
    using h
      empty_pool_stays_empty [OF h, where e = plainEnv
        and evs = "[Start, Fire 0, Tick, SelectMode (js ''Type''), Submit]"
        and window = True and ls = nothingStored and k = "js ''blitz''" and st = zeroStats
        and ?r0.0 = False and s = kanaRunning]
    by blast
qed

section \<open>Correctness of a picked option\<close>

text \<open>Everything but the Type-mode handler is independent of \<open>checkAnswer\<close>.\<close>

lemma checkAnswer_unused:
  "isReverseActive (cfg\<lparr>checkAnswer := f\<rparr>) s = isReverseActive cfg s"
  "pickModeSupported (cfg\<lparr>checkAnswer := f\<rparr>) = pickModeSupported cfg"
  "view (cfg\<lparr>checkAnswer := f\<rparr>) s = view cfg s"
  "newQuestion (cfg\<lparr>checkAnswer := f\<rparr>) s = newQuestion cfg s"
  "handleStart (cfg\<lparr>checkAnswer := f\<rparr>) s = handleStart cfg s"
  "runDeferred (cfg\<lparr>checkAnswer := f\<rparr>) cb s = runDeferred cfg cb s"
  "optionsEffect (cfg\<lparr>checkAnswer := f\<rparr>) e r s = optionsEffect cfg e r s"
  "optionsDeps (cfg\<lparr>checkAnswer := f\<rparr>) s = optionsDeps cfg s"
  by (simp_all add: isReverseActive_def pickModeSupported_def view_def newQuestion_def
      handleStart_def runDeferred_def optionsEffect_def optionsDeps_def Let_def
      split: option.splits deferred.splits)

lemma checkAnswer_unused_click:
  "handleOptionClick (cfg\<lparr>checkAnswer := f\<rparr>) e opt s = handleOptionClick cfg e opt s"
  by (simp add: handleOptionClick_def checkAnswer_unused Let_def split: option.splits)

lemma checkAnswer_unused_fire:
  "fire (cfg\<lparr>checkAnswer := f\<rparr>) i s = fire cfg i s"
  by (simp add: fire_def checkAnswer_unused)

lemma checkAnswer_unused_effects:
  "runEffects (cfg\<lparr>checkAnswer := f\<rparr>) e prev r = runEffects cfg e prev r"
  by (simp add: runEffects_def checkAnswer_unused)

lemma checkAnswer_unused_enabled:
  "enabled (cfg\<lparr>checkAnswer := f\<rparr>) s ev = enabled cfg s ev"
  by (cases ev) (simp_all add: enabled_def checkAnswer_unused)

lemma checkAnswer_unused_handle:
  "ev \<noteq> Submit \<Longrightarrow> handle (cfg\<lparr>checkAnswer := f\<rparr>) e ev s = handle cfg e ev s"
  by (cases ev)
     (simp_all add: handle_def checkAnswer_unused checkAnswer_unused_click
        checkAnswer_unused_fire)

lemma pick_no_submit: "gameMode s = js ''Pick'' \<Longrightarrow> \<not> enabled cfg s Submit"
  by (simp add: enabled_def js_def)

lemma handle_count_CheckAnswer:
  "ev \<noteq> Submit \<Longrightarrow>
     count_list (calls (handle cfg e ev s)) CheckAnswer = count_list (calls s) CheckAnswer"
  by (cases ev)
     (simp_all add: handle_def handleStart_fields handleCancel_fields tick_fields logCall_def
        handleOptionClick_calls fire_calls
        split: option.splits bool.splits deferred.splits)

lemma handleOptionClick_result:
  assumes "currentQuestion s = Some q" "getCorrectOption cfg = Some g"
  shows "lastAnswerCorrect (handleOptionClick cfg e opt s) = Some (opt = g q (isReverseActive cfg s))"
    and "correct (stats (handleOptionClick cfg e opt s))
           = correct (stats s) + (if opt = g q (isReverseActive cfg s) then 1 else 0)"
    and "wrong (stats (handleOptionClick cfg e opt s))
           = wrong (stats s) + (if opt = g q (isReverseActive cfg s) then 0 else 1)"
  using assms by (simp_all add: handleOptionClick_def Let_def prim_defs)

text \<open>
  Claim C10. While the mode is Pick, no event makes the component call \<open>checkAnswer\<close>,
  and replacing \<open>checkAnswer\<close> by any other function changes nothing in what an event
  does. A click on an option is judged by comparing the option with
  \<open>getCorrectOption(currentQuestion, isReverseActive)\<close>: the feedback flag is the result
  of that comparison, \<open>correct\<close> is incremented when it holds and \<open>wrong\<close> when it
  does not.
\<close>

theorem pick_mode_ignores_checkAnswer:
  assumes "gameMode s = js ''Pick''"
  shows "step (cfg\<lparr>checkAnswer := f\<rparr>) e ev s = step cfg e ev s
       \<and> count_list (calls (step cfg e ev s)) CheckAnswer = count_list (calls s) CheckAnswer
       \<and> (enabled cfg s (OptionClick i) \<and> currentQuestion s = Some q
            \<and> getCorrectOption cfg = Some g \<longrightarrow>
          lastAnswerCorrect (step cfg e (OptionClick i) s)
            = Some (shuffledOptions s ! i = g q (isReverseActive cfg s))
          \<and> correct (stats (step cfg e (OptionClick i) s))
            = correct (stats s) + (if shuffledOptions s ! i = g q (isReverseActive cfg s) then 1 else 0)
          \<and> wrong (stats (step cfg e (OptionClick i) s))
            = wrong (stats s) + (if shuffledOptions s ! i = g q (isReverseActive cfg s) then 0 else 1))"
proof -
  have a: "step (cfg\<lparr>checkAnswer := f\<rparr>) e ev s = step cfg e ev s"
  proof (cases "ev = Submit")
    case True
    then show ?thesis
      using pick_no_submit [OF assms] by (simp add: step_unfold checkAnswer_unused_enabled)
  next
    case False
    then show ?thesis
      by (simp add: step_unfold checkAnswer_unused_enabled checkAnswer_unused_effects
          checkAnswer_unused_handle)
  qed
  have b: "count_list (calls (step cfg e ev s)) CheckAnswer = count_list (calls s) CheckAnswer"
  proof (cases "ev = Submit")
    case True
    then show ?thesis using pick_no_submit [OF assms] by (simp add: step_unfold)
  next
    case False
    then show ?thesis by (simp add: step_unfold runEffects_calls handle_count_CheckAnswer)
  qed
  have c: "enabled cfg s (OptionClick i) \<and> currentQuestion s = Some q
            \<and> getCorrectOption cfg = Some g \<longrightarrow>
          lastAnswerCorrect (step cfg e (OptionClick i) s)
            = Some (shuffledOptions s ! i = g q (isReverseActive cfg s))
          \<and> correct (stats (step cfg e (OptionClick i) s))
            = correct (stats s) + (if shuffledOptions s ! i = g q (isReverseActive cfg s) then 1 else 0)
          \<and> wrong (stats (step cfg e (OptionClick i) s))
            = wrong (stats s) + (if shuffledOptions s ! i = g q (isReverseActive cfg s) then 0 else 1)"
    by (simp add: step_unfold handle_def runEffects_frame handleOptionClick_result)
  from a b c show ?thesis by blast
qed

theorem pick_mode_ignores_checkAnswer_witness:
  "gameMode kanaRunning = js ''Pick''
   \<and> enabled kanaConfig kanaRunning (OptionClick 0)
   \<and> currentQuestion kanaRunning = Some (js ''TA'', js ''ta'')
   \<and> getCorrectOption kanaConfig = Some kanaAnswer
   \<and> step (kanaConfig\<lparr>checkAnswer := \<lambda>q a r. False\<rparr>) plainEnv (OptionClick 0) kanaRunning
       = step kanaConfig plainEnv (OptionClick 0) kanaRunning
   \<and> count_list (calls (step kanaConfig plainEnv (OptionClick 0) kanaRunning)) CheckAnswer
       = count_list (calls kanaRunning) CheckAnswer
   \<and> lastAnswerCorrect (step kanaConfig plainEnv (OptionClick 0) kanaRunning) = Some True"
proof -
  have h1: "gameMode kanaRunning = js ''Pick''" by code_simp
  have h2: "enabled kanaConfig kanaRunning (OptionClick 0)" by code_simp
  have h3: "currentQuestion kanaRunning = Some (js ''TA'', js ''ta'')" by code_simp
  have h4: "getCorrectOption kanaConfig = Some kanaAnswer" by (simp add: kanaConfig_def)
  have h5: "shuffledOptions kanaRunning ! 0
              = kanaAnswer (js ''TA'', js ''ta'') (isReverseActive kanaConfig kanaRunning)"
    by code_simp
  show ?thesis
    using h1 h2 h3 h4 h5
      pick_mode_ignores_checkAnswer [OF h1, where cfg = kanaConfig and f = "\<lambda>q a r. False"
        and e = plainEnv and ev = "OptionClick 0" and i = 0 and q = "(js ''TA'', js ''ta'')"
        and g = kanaAnswer]
    by simp
qed

section \<open>Answers and the reverse-mode policy\<close>

lemma handle_count_DecideNextMode:
  "count_list (calls (handle cfg e ev s)) DecideNextMode =
     count_list (calls s) DecideNextMode
     + (if supportsReverseMode cfg
           \<and> (case ev of Submit \<Rightarrow> submitOutcome cfg s
               | OptionClick i \<Rightarrow> clickOutcome cfg (shuffledOptions s ! i) s
               | _ \<Rightarrow> None) = Some True
        then 1 else 0)"
  by (cases ev)
     (simp_all add: handle_def handleStart_fields handleCancel_fields tick_fields logCall_def
        handleSubmit_calls handleOptionClick_calls fire_calls
        split: option.splits bool.splits deferred.splits)

lemma handle_count_ResetReverseStreak:
  "count_list (calls (handle cfg e ev s)) ResetReverseStreak =
     count_list (calls s) ResetReverseStreak
     + (if supportsReverseMode cfg
           \<and> (case ev of Submit \<Rightarrow> submitOutcome cfg s
               | OptionClick i \<Rightarrow> clickOutcome cfg (shuffledOptions s ! i) s
               | _ \<Rightarrow> None) = Some False
        then 1 else 0)"
  by (cases ev)
     (simp_all add: handle_def handleStart_fields handleCancel_fields tick_fields logCall_def
        handleSubmit_calls handleOptionClick_calls fire_calls
        split: option.splits bool.splits deferred.splits)

lemma step_count_DecideNextMode:
  "count_list (calls (step cfg e ev s)) DecideNextMode =
     count_list (calls s) DecideNextMode
     + (if supportsReverseMode cfg \<and> answerOutcome cfg s ev = Some True then 1 else 0)"
  by (simp add: step_unfold runEffects_calls handle_count_DecideNextMode answerOutcome_def)

lemma step_count_ResetReverseStreak:
  "count_list (calls (step cfg e ev s)) ResetReverseStreak =
     count_list (calls s) ResetReverseStreak
     + (if supportsReverseMode cfg \<and> answerOutcome cfg s ev = Some False then 1 else 0)"
  by (simp add: step_unfold runEffects_calls handle_count_ResetReverseStreak answerOutcome_def)

lemma run_count_DecideNextMode:
  "count_list (calls (run cfg e evs s)) DecideNextMode =
     count_list (calls s) DecideNextMode
     + (if supportsReverseMode cfg then count_list (outcomes cfg e evs s) True else 0)"
proof (induction evs arbitrary: s)
  case Nil
  then show ?case by simp
next
  case (Cons ev evs)
  show ?case
    by (simp add: Cons.IH step_count_DecideNextMode split: option.splits)
qed

lemma run_count_ResetReverseStreak:
  "count_list (calls (run cfg e evs s)) ResetReverseStreak =
     count_list (calls s) ResetReverseStreak
     + (if supportsReverseMode cfg then count_list (outcomes cfg e evs s) False else 0)"
proof (induction evs arbitrary: s)
  case Nil
  then show ?case by simp
next
  case (Cons ev evs)
  show ?case
    by (simp add: Cons.IH step_count_ResetReverseStreak split: option.splits)
qed

text \<open>
  Claim C6. Along any run of events, in either mode, the number of calls of the
  reverse-mode policy's advance mutator grows by the number of correct answers and the
  number of calls of its reset mutator by the number of incorrect answers, when reverse
  mode is supported; when it is not, neither mutator is called. For a single answer this
  says that a correct answer calls the advance mutator once and the reset mutator not at
  all, and an incorrect answer the other way round.
\<close>

theorem reverse_policy_calls:
  "count_list (calls (run cfg e evs s)) DecideNextMode =
     count_list (calls s) DecideNextMode
     + (if supportsReverseMode cfg then count_list (outcomes cfg e evs s) True else 0)
   \<and> count_list (calls (run cfg e evs s)) ResetReverseStreak =
     count_list (calls s) ResetReverseStreak
     + (if supportsReverseMode cfg then count_list (outcomes cfg e evs s) False else 0)"
  using run_count_DecideNextMode run_count_ResetReverseStreak by blast

theorem reverse_policy_calls_witness:
  "supportsReverseMode kanaConfig
   \<and> outcomes kanaConfig plainEnv fourRightOneWrong kanaRunning = [True, True, True, True, False]
   \<and> count_list (calls (run kanaConfig plainEnv fourRightOneWrong kanaRunning)) DecideNextMode
       = count_list (calls kanaRunning) DecideNextMode + 4
   \<and> count_list (calls (run kanaConfig plainEnv fourRightOneWrong kanaRunning)) ResetReverseStreak
       = count_list (calls kanaRunning) ResetReverseStreak + 1"
proof -
  have h1: "supportsReverseMode kanaConfig" by (simp add: kanaConfig_def)
  have h2: "outcomes kanaConfig plainEnv fourRightOneWrong kanaRunning
              = [True, True, True, True, False]"
    by code_simp
  show ?thesis
    using h1 h2 reverse_policy_calls [of kanaConfig plainEnv fourRightOneWrong kanaRunning]
    by simp
qed

section \<open>Picking an option\<close>

lemma handleOptionClick_wrong:
  assumes "currentQuestion s = Some q" "getCorrectOption cfg = Some g"
    "opt \<noteq> g q (isReverseActive cfg s)"
  shows "wrongSelectedAnswers (handleOptionClick cfg e opt s) = wrongSelectedAnswers s @ [opt]"
    and "isReverse (handleOptionClick cfg e opt s) = isReverse s"
    and "pending (handleOptionClick cfg e opt s) = pending s"
  using assms by (simp_all add: handleOptionClick_def Let_def prim_defs)

lemma handleOptionClick_right:
  assumes "currentQuestion s = Some q" "getCorrectOption cfg = Some g"
    "opt = g q (isReverseActive cfg s)"
  shows "pending (handleOptionClick cfg e opt s) = pending s @ [(300, AdvanceQuestionCb)]"
  using assms by (simp_all add: handleOptionClick_def Let_def prim_defs)

lemma fire_AdvanceQuestionCb:
  assumes "i < length (pending s)" "snd (pending s ! i) = AdvanceQuestionCb"
  shows "currentQuestion (fire cfg i s) = Some (generateQuestion cfg (rng s) (items cfg))"
    and "lastAnswerCorrect (fire cfg i s) = None"
  using assms by (simp_all add: fire_def runDeferred_def prim_defs)

lemma step_Fire: "step cfg e (Fire i) s = runEffects cfg e s (fire cfg i s)"
  by (simp add: step_unfold enabled_def handle_def)

text \<open>
  Claim C5. A click on an option button in Pick mode, with a question shown: when the
  option is not the correct one, the question stays as it is, the option is appended to
  the rejected options and no timeout is scheduled; when it is the correct one, the
  advance callback is scheduled with a delay of 300 ms, and when that timeout fires the
  question becomes the one the generator returns then.
\<close>

theorem pick_answer_question:
  assumes "enabled cfg s (OptionClick i)" "currentQuestion s = Some q"
    "getCorrectOption cfg = Some g"
  shows "(shuffledOptions s ! i \<noteq> g q (isReverseActive cfg s) \<longrightarrow>
            currentQuestion (step cfg e (OptionClick i) s) = Some q
          \<and> wrongSelectedAnswers (step cfg e (OptionClick i) s)
              = wrongSelectedAnswers s @ [shuffledOptions s ! i]
          \<and> pending (step cfg e (OptionClick i) s) = pending s)
       \<and> (shuffledOptions s ! i = g q (isReverseActive cfg s) \<longrightarrow>
            pending (step cfg e (OptionClick i) s) = pending s @ [(300, AdvanceQuestionCb)]
          \<and> currentQuestion
               (step cfg e (Fire (length (pending s))) (step cfg e (OptionClick i) s))
              = Some (generateQuestion cfg (rng (step cfg e (OptionClick i) s)) (items cfg)))"
proof -
  let ?opt = "shuffledOptions s ! i"
  let ?r = "handleOptionClick cfg e ?opt s"
  have st: "step cfg e (OptionClick i) s = runEffects cfg e s ?r"
    using assms(1) by (simp add: step_unfold handle_def)
  have wrong: "currentQuestion (step cfg e (OptionClick i) s) = Some q
          \<and> wrongSelectedAnswers (step cfg e (OptionClick i) s) = wrongSelectedAnswers s @ [?opt]
          \<and> pending (step cfg e (OptionClick i) s) = pending s"
    if w: "?opt \<noteq> g q (isReverseActive cfg s)"
  proof -
    note hw = handleOptionClick_wrong [OF assms(2,3) w, of e]
    have "optionsDeps cfg ?r = optionsDeps cfg s"
      by (simp add: optionsDeps_def isReverseActive_def hw handleOptionClick_fields)
    then have "\<not> regenerates cfg s ?r" by (simp add: regenerates_def)
    then show ?thesis
      by (simp add: st runEffects_frame runEffects_wrong hw handleOptionClick_fields assms(2))
  qed
  have right: "pending (step cfg e (OptionClick i) s) = pending s @ [(300, AdvanceQuestionCb)]
          \<and> currentQuestion
               (step cfg e (Fire (length (pending s))) (step cfg e (OptionClick i) s))
              = Some (generateQuestion cfg (rng (step cfg e (OptionClick i) s)) (items cfg))"
    if r: "?opt = g q (isReverseActive cfg s)"
  proof -
    have p: "pending (step cfg e (OptionClick i) s) = pending s @ [(300, AdvanceQuestionCb)]"
      by (simp add: st runEffects_frame handleOptionClick_right [OF assms(2,3) r])
    have "currentQuestion (fire cfg (length (pending s)) (step cfg e (OptionClick i) s))
            = Some (generateQuestion cfg (rng (step cfg e (OptionClick i) s)) (items cfg))"
      by (rule fire_AdvanceQuestionCb) (simp_all add: p)
    then show ?thesis by (simp add: p step_Fire runEffects_frame)
  qed
  from wrong right show ?thesis by blast
qed


theorem pick_answer_question_witness:
  "enabled kanaConfig kanaRunning (OptionClick 1)
   \<and> enabled kanaConfig kanaRunning (OptionClick 0)
   \<and> currentQuestion kanaRunning = Some (js ''TA'', js ''ta'')
   \<and> getCorrectOption kanaConfig = Some kanaAnswer
   \<and> shuffledOptions kanaRunning ! 1
        \<noteq> kanaAnswer (js ''TA'', js ''ta'') (isReverseActive kanaConfig kanaRunning)
   \<and> shuffledOptions kanaRunning ! 0
        = kanaAnswer (js ''TA'', js ''ta'') (isReverseActive kanaConfig kanaRunning)
   \<and> currentQuestion (step kanaConfig plainEnv (OptionClick 1) kanaRunning)
       = Some (js ''TA'', js ''ta'')
   \<and> wrongSelectedAnswers (step kanaConfig plainEnv (OptionClick 1) kanaRunning) = [js ''a'']
   \<and> pending (step kanaConfig plainEnv (OptionClick 0) kanaRunning) = [(300, AdvanceQuestionCb)]
   \<and> currentQuestion
        (step kanaConfig plainEnv (Fire 0) (step kanaConfig plainEnv (OptionClick 0) kanaRunning))
       = Some (js ''SA'', js ''sa'')"
proof -
  have h1: "enabled kanaConfig kanaRunning (OptionClick 1)" by code_simp
  have h0: "enabled kanaConfig kanaRunning (OptionClick 0)" by code_simp
  have h2: "currentQuestion kanaRunning = Some (js ''TA'', js ''ta'')" by code_simp
  have h3: "getCorrectOption kanaConfig = Some kanaAnswer" by (simp add: kanaConfig_def)
  have w: "shuffledOptions kanaRunning ! 1
             \<noteq> kanaAnswer (js ''TA'', js ''ta'') (isReverseActive kanaConfig kanaRunning)"
    by code_simp
  have r: "shuffledOptions kanaRunning ! 0
             = kanaAnswer (js ''TA'', js ''ta'') (isReverseActive kanaConfig kanaRunning)"
    by code_simp
  have v1: "wrongSelectedAnswers kanaRunning @ [shuffledOptions kanaRunning ! 1] = [js ''a'']"
    by code_simp
  have v2: "pending kanaRunning = []" by code_simp
  have v3: "generateQuestion kanaConfig
              (rng (step kanaConfig plainEnv (OptionClick 0) kanaRunning)) (items kanaConfig)
            = (js ''SA'', js ''sa'')"
    by code_simp
  show ?thesis
    using h1 h0 h2 h3 w r v1 v2 v3
      pick_answer_question [OF h1 h2 h3, of plainEnv]
      pick_answer_question [OF h0 h2 h3, of plainEnv]
    by simp
qed

section \<open>Regenerating the options\<close>

lemma regenerates_runEffects:
  "regenerates cfg prev (runEffects cfg e p r) = regenerates cfg prev r"
  by (simp add: regenerates_def runEffects_deps runEffects_frame)

lemma regenerates_same: "\<not> regenerates cfg s s"
  by (simp add: regenerates_def)

text \<open>
  Against claim C3 as stated. In the pre-game view, with the first question drawn and
  Type selected, a click on Pick regenerates the options although the question does not
  change. In a running Pick-mode session, a correct pick after which the reverse-mode
  policy flips its mode regenerates the options at once, for the question that is still
  shown.
\<close>

theorem options_regenerated_counterexample:
  "currentQuestion (step kanaConfig plainEnv (SelectMode (js ''Pick'')) kanaTypeSelected)
     = currentQuestion kanaTypeSelected
   \<and> count_list (calls (step kanaConfig plainEnv (SelectMode (js ''Pick'')) kanaTypeSelected))
       GenerateOptions
     = Suc (count_list (calls kanaTypeSelected) GenerateOptions)
   \<and> gameMode kanaRunning = js ''Pick''
   \<and> currentQuestion (step kanaConfig flippingEnv (OptionClick 0) kanaRunning)
     = currentQuestion kanaRunning
   \<and> count_list (calls (step kanaConfig flippingEnv (OptionClick 0) kanaRunning)) GenerateOptions
     = Suc (count_list (calls kanaRunning) GenerateOptions)"
  by code_simp

text \<open>
  Claim C3, amended. An event regenerates the options exactly when, after it,
  \<open>currentQuestion\<close>, \<open>gameMode\<close> or \<open>isReverseActive\<close> differs from before, a question
  is present, the mode is Pick and \<open>generateOptions\<close> is supplied; it then regenerates
  them once, and the rejected options are empty afterwards. No other event regenerates
  them. In particular a new question in Pick mode regenerates them exactly once.
\<close>

theorem options_regenerated_on_change:
  "count_list (calls (step cfg e ev s)) GenerateOptions
     = count_list (calls s) GenerateOptions
       + (if regenerates cfg s (step cfg e ev s) then 1 else 0)
   \<and> (regenerates cfg s (step cfg e ev s) \<longrightarrow> wrongSelectedAnswers (step cfg e ev s) = [])"
proof (cases "enabled cfg s ev")
  case False
  then show ?thesis by (simp add: step_unfold regenerates_same)
next
  case True
  then show ?thesis
    by (simp add: step_unfold regenerates_runEffects runEffects_calls runEffects_wrong
        handle_count_GenerateOptions)
qed

theorem options_regenerated_on_change_witness:
  "regenerates kanaConfig (step kanaConfig plainEnv (OptionClick 0) kanaRunning)
     (step kanaConfig plainEnv (Fire 0) (step kanaConfig plainEnv (OptionClick 0) kanaRunning))
   \<and> count_list
        (calls (step kanaConfig plainEnv (Fire 0)
                  (step kanaConfig plainEnv (OptionClick 0) kanaRunning))) GenerateOptions
     = count_list (calls (step kanaConfig plainEnv (OptionClick 0) kanaRunning)) GenerateOptions + 1
   \<and> wrongSelectedAnswers
        (step kanaConfig plainEnv (Fire 0) (step kanaConfig plainEnv (OptionClick 0) kanaRunning))
     = []"
proof -
  have h: "regenerates kanaConfig (step kanaConfig plainEnv (OptionClick 0) kanaRunning)
     (step kanaConfig plainEnv (Fire 0) (step kanaConfig plainEnv (OptionClick 0) kanaRunning))"
    by code_simp
  show ?thesis
    using h
      options_regenerated_on_change [of kanaConfig plainEnv "Fire 0"
        "step kanaConfig plainEnv (OptionClick 0) kanaRunning"]
    by simp
qed

section \<open>Timeouts that outlive their session\<close>

text \<open>
  Against claim C1 as stated. The advance callback scheduled by a correct pick fires after
  the session was cancelled, and replaces the question. The same callback, scheduled in
  the last second of a session, fires after the restart from the results view, when the
  new countdown runs, and replaces the question that the new session drew.
\<close>

theorem stale_callback_counterexample:
  "view kanaConfig staleAfterCancel = PreGame
   \<and> pending staleAfterCancel = [(300, AdvanceQuestionCb)]
   \<and> currentQuestion staleAfterCancel = Some (js ''TA'', js ''ta'')
   \<and> currentQuestion (step kanaConfig plainEnv (Fire 0) staleAfterCancel)
       = Some (js ''SA'', js ''sa'')
   \<and> view kanaConfig staleAfterRestart = Active
   \<and> pending staleAfterRestart = [(300, AdvanceQuestionCb), (100, FocusInputCb)]
   \<and> currentQuestion staleAfterRestart = Some (js ''SA'', js ''sa'')
   \<and> currentQuestion (step kanaConfig plainEnv (Fire 0) staleAfterRestart)
       = Some (js ''A'', js ''a'')"
  by code_simp

lemma fire_ClearFeedbackCb:
  assumes "i < length (pending s)" "snd (pending s ! i) = ClearFeedbackCb"
  shows "currentQuestion (fire cfg i s) = currentQuestion s"
    and "lastAnswerCorrect (fire cfg i s) = None"
    and "isRunning (fire cfg i s) = isRunning s"
  using assms by (simp_all add: fire_def runDeferred_def prim_defs)

lemma step_Fire_isFinished: "isFinished (step cfg e (Fire i) s) = isFinished s"
  by (simp add: step_Fire runEffects_isFinished completes_def finishDeps_def fire_fields)

text \<open>
  Claim C1, amended. Cancel leaves the pending timeouts as they are and Start only adds
  its own two: a deferred transition scheduled before is neither cancelled nor
  invalidated. Whenever the advance callback fires it sets \<open>currentQuestion\<close> to the
  question the generator returns then and clears the feedback flag; whenever the
  clear-feedback callback fires it clears the feedback flag and keeps the question. No
  timeout that fires changes the score, \<open>isFinished\<close>, the remaining time, the typed
  answer or the mode.
\<close>

theorem stale_callback_applies:
  "pending (step cfg e Cancel s) = pending s
   \<and> pending (step cfg e Start s)
       = pending s @ (if enabled cfg s Start then [(50, StartTimerCb), (100, FocusInputCb)] else [])
   \<and> (i < length (pending s) \<and> snd (pending s ! i) = AdvanceQuestionCb \<longrightarrow>
        currentQuestion (step cfg e (Fire i) s) = Some (generateQuestion cfg (rng s) (items cfg))
        \<and> lastAnswerCorrect (step cfg e (Fire i) s) = None)
   \<and> (i < length (pending s) \<and> snd (pending s ! i) = ClearFeedbackCb \<longrightarrow>
        currentQuestion (step cfg e (Fire i) s) = currentQuestion s
        \<and> lastAnswerCorrect (step cfg e (Fire i) s) = None)
   \<and> stats (step cfg e (Fire i) s) = stats s
   \<and> isFinished (step cfg e (Fire i) s) = isFinished s
   \<and> timeLeft (step cfg e (Fire i) s) = timeLeft s
   \<and> userAnswer (step cfg e (Fire i) s) = userAnswer s
   \<and> gameMode (step cfg e (Fire i) s) = gameMode s"
proof -
  have a: "pending (step cfg e Cancel s) = pending s"
    by (simp add: step_unfold handle_def runEffects_frame handleCancel_fields)
  have b: "pending (step cfg e Start s)
       = pending s @ (if enabled cfg s Start then [(50, StartTimerCb), (100, FocusInputCb)] else [])"
    by (simp add: step_unfold handle_def runEffects_frame handleStart_fields)
  have c: "i < length (pending s) \<and> snd (pending s ! i) = AdvanceQuestionCb \<longrightarrow>
        currentQuestion (step cfg e (Fire i) s) = Some (generateQuestion cfg (rng s) (items cfg))
        \<and> lastAnswerCorrect (step cfg e (Fire i) s) = None"
    by (simp add: step_Fire runEffects_frame fire_AdvanceQuestionCb)
  have d: "i < length (pending s) \<and> snd (pending s ! i) = ClearFeedbackCb \<longrightarrow>
        currentQuestion (step cfg e (Fire i) s) = currentQuestion s
        \<and> lastAnswerCorrect (step cfg e (Fire i) s) = None"
    by (simp add: step_Fire runEffects_frame fire_ClearFeedbackCb)
  have f: "stats (step cfg e (Fire i) s) = stats s
   \<and> isFinished (step cfg e (Fire i) s) = isFinished s
   \<and> timeLeft (step cfg e (Fire i) s) = timeLeft s
   \<and> userAnswer (step cfg e (Fire i) s) = userAnswer s
   \<and> gameMode (step cfg e (Fire i) s) = gameMode s"
    by (simp add: step_Fire_isFinished) (simp add: step_Fire runEffects_frame fire_fields)
  from a b c d f show ?thesis by blast
qed

theorem stale_callback_applies_witness:
  "0 < length (pending staleAfterRestart)
   \<and> snd (pending staleAfterRestart ! 0) = AdvanceQuestionCb
   \<and> currentQuestion (step kanaConfig plainEnv (Fire 0) staleAfterRestart)
       = Some (js ''A'', js ''a'')
   \<and> stats (step kanaConfig plainEnv (Fire 0) staleAfterRestart) = stats staleAfterRestart
   \<and> 0 < length (pending staleFeedback)
   \<and> snd (pending staleFeedback ! 0) = ClearFeedbackCb
   \<and> lastAnswerCorrect staleFeedback = Some False
   \<and> lastAnswerCorrect (step kanaConfig plainEnv (Fire 0) staleFeedback) = None"
proof -
  have h1: "0 < length (pending staleAfterRestart)" by code_simp
  have h2: "snd (pending staleAfterRestart ! 0) = AdvanceQuestionCb" by code_simp
  have h3: "generateQuestion kanaConfig (rng staleAfterRestart) (items kanaConfig)
              = (js ''A'', js ''a'')"
    by code_simp
  have h4: "0 < length (pending staleFeedback)" by code_simp
  have h5: "snd (pending staleFeedback ! 0) = ClearFeedbackCb" by code_simp
  have h6: "lastAnswerCorrect staleFeedback = Some False" by code_simp
  show ?thesis
    using h1 h2 h3 h4 h5 h6
      stale_callback_applies [of kanaConfig plainEnv staleAfterRestart 0]
      stale_callback_applies [of kanaConfig plainEnv staleFeedback 0]
    by simp
qed

section \<open>Preferences read at initialisation\<close>

text \<open>
  Against claim C2 as stated. With \<open>abc\<close> stored as duration the duration used is
  \<open>NaN\<close>, and with \<open>Hard\<close> stored as mode the mode used is \<open>Hard\<close>.
\<close>

theorem stored_preference_counterexample:
  "initChallengeDuration True corruptStore (js ''blitz'') = NaN
   \<and> initChallengeDuration True corruptStore (js ''blitz'') \<noteq> Num 60
   \<and> initGameMode True corruptStore (js ''blitz'') = js ''Hard''
   \<and> initGameMode True corruptStore (js ''blitz'') \<noteq> js ''Pick''"
  by (simp add: initChallengeDuration_def initGameMode_def corruptStore_def getItem_def
      parseInt_def isWhiteSpace_def isRadixDigit_def digitValue_def js_def)

text \<open>
  What \<open>parseInt\<close> returns on some strings: white space that is not ASCII is skipped
  too, digits are read up to the first character that is none, and an integer beyond
  \<open>2 ^ 53\<close> comes out as the nearest double.
\<close>

lemma parseInt_examples:
  "parseInt (js ''90'') = Num 90"
  "parseInt (0xA0 # js ''60'') = Num 60"
  "parseInt (0x3000 # 0xFEFF # js ''-12px'') = Num (- 12)"
  "parseInt (js ''0x1F'') = Num 31"
  "parseInt (js ''0x'') = NaN"
  "parseInt (js ''9007199254740993'') = Num 9007199254740992"
  by code_simp+

text \<open>\<open>trim\<close> strips the same white space at both ends, and none inside.\<close>

lemma trim_examples:
  "trim [0x3000] = []"
  "trim (js ''ta'' @ [0x3000]) = js ''ta''"
  "trim (0xA0 # js '' k a '' @ [0x2028, 0xFEFF]) = js ''k a''"
  "trim [0x200B] = [0x200B]"
  by code_simp+

text \<open>A sign is no white space, so that leading white space ends before it.\<close>

lemma sign_not_white: "\<not> isWhiteSpace 0x2B" "\<not> isWhiteSpace 0x2D"
  by (simp_all add: isWhiteSpace_def)

lemma no_digits_NaN:
  assumes "S = [] \<or> \<not> isRadixDigit 10 (hd S)"
  shows "(let hex = (take 2 S = js ''0x'' \<or> take 2 S = js ''0X'');
              R = (if hex then 16 else 10);
              S2 = (if hex then drop 2 S else S)
          in takeWhile (isRadixDigit R) S2) = []"
proof (cases S)
  case Nil
  then show ?thesis by (simp add: js_def)
next
  case (Cons c cs)
  with assms have d: "\<not> isRadixDigit 10 c" by simp
  then have z: "c \<noteq> 48" by (auto simp: isRadixDigit_def digitValue_def)
  have "take 2 S \<noteq> js ''0x''" "take 2 S \<noteq> js ''0X''"
    using z Cons by (auto simp: js_def take_Suc_conv_app_nth numeral_2_eq_2)
  then show ?thesis using d Cons by simp
qed

lemma parseInt_unsigned_NaN:
  assumes "\<forall>c\<in>set ws. isWhiteSpace c"
    and "rest = [] \<or> \<not> isWhiteSpace (hd rest) \<and> hd rest \<noteq> 0x2B \<and> hd rest \<noteq> 0x2D
           \<and> \<not> isRadixDigit 10 (hd rest)"
  shows "parseInt (ws @ rest) = NaN"
proof -
  have S: "dropWhile isWhiteSpace (ws @ rest) = rest"
  proof -
    have "dropWhile isWhiteSpace (ws @ rest) = dropWhile isWhiteSpace rest"
      using assms(1) by simp
    also have "\<dots> = rest" using assms(2) by (cases rest) auto
    finally show ?thesis .
  qed
  have nosign: "take 1 rest \<noteq> js ''+''" "take 1 rest \<noteq> js ''-''"
    using assms(2) by (cases rest; auto simp: js_def)+
  have nd: "rest = [] \<or> \<not> isRadixDigit 10 (hd rest)" using assms(2) by blast
  show ?thesis
    using no_digits_NaN [OF nd] nosign
    by (auto simp add: parseInt_def S Let_def split: if_splits)
qed

lemma parseInt_signed_NaN:
  assumes "\<forall>c\<in>set ws. isWhiteSpace c"
    and "sg = 0x2B \<or> sg = 0x2D"
    and "rest = [] \<or> \<not> isRadixDigit 10 (hd rest)"
  shows "parseInt (ws @ sg # rest) = NaN"
proof -
  have w: "\<not> isWhiteSpace sg" using assms(2) sign_not_white by auto
  have S: "dropWhile isWhiteSpace (ws @ sg # rest) = sg # rest"
    using assms(1) w by simp
  have sign: "take 1 (sg # rest) = js ''+'' \<or> take 1 (sg # rest) = js ''-''"
    using assms(2) by (auto simp: js_def)
  show ?thesis
    using no_digits_NaN [OF assms(3)] sign
    by (auto simp add: parseInt_def S Let_def split: if_splits)
qed

text \<open>
  Claim C2, amended. The duration used is 60 when there is no \<open>window\<close>, no stored
  value, or the stored value is the empty string; the mode used is \<open>Pick\<close> under the
  same conditions. A stored mode that is not empty is used as it is, whatever it is. A
  stored duration that is not empty goes through \<open>parseInt\<close>, which returns \<open>NaN\<close>
  for every string that, after its leading white space and an optional sign, is at its
  end or goes on with a character that is no decimal digit.
\<close>

theorem stored_preference_defaults:
  "(\<not> window \<or> getItem ls k = None \<or> getItem ls k = Some [] \<longrightarrow>
      initChallengeDuration window ls k = Num 60)
   \<and> (\<not> window \<or> getItem ls (k @ js ''_gameMode'') = None
        \<or> getItem ls (k @ js ''_gameMode'') = Some []
        \<longrightarrow> initGameMode window ls k = js ''Pick'')
   \<and> (window \<and> getItem ls (k @ js ''_gameMode'') = Some m \<and> m \<noteq> [] \<longrightarrow>
        initGameMode window ls k = m)
   \<and> (window \<and> getItem ls k = Some d \<and> d \<noteq> [] \<longrightarrow>
        initChallengeDuration window ls k = parseInt d)
   \<and> ((\<forall>c\<in>set ws. isWhiteSpace c)
        \<and> (rest = [] \<or> \<not> isWhiteSpace (hd rest) \<and> hd rest \<noteq> 0x2B \<and> hd rest \<noteq> 0x2D
               \<and> \<not> isRadixDigit 10 (hd rest))
        \<longrightarrow> parseInt (ws @ rest) = NaN)
   \<and> ((\<forall>c\<in>set ws. isWhiteSpace c) \<and> (sg = 0x2B \<or> sg = 0x2D)
        \<and> (rest = [] \<or> \<not> isRadixDigit 10 (hd rest))
        \<longrightarrow> parseInt (ws @ sg # rest) = NaN)"
proof -
  have a: "(\<not> window \<or> getItem ls k = None \<or> getItem ls k = Some [] \<longrightarrow>
      initChallengeDuration window ls k = Num 60)
   \<and> (\<not> window \<or> getItem ls (k @ js ''_gameMode'') = None
        \<or> getItem ls (k @ js ''_gameMode'') = Some []
        \<longrightarrow> initGameMode window ls k = js ''Pick'')
   \<and> (window \<and> getItem ls (k @ js ''_gameMode'') = Some m \<and> m \<noteq> [] \<longrightarrow>
        initGameMode window ls k = m)
   \<and> (window \<and> getItem ls k = Some d \<and> d \<noteq> [] \<longrightarrow>
        initChallengeDuration window ls k = parseInt d)"
    by (auto simp: initChallengeDuration_def initGameMode_def)
  from a parseInt_unsigned_NaN [of ws rest] parseInt_signed_NaN [of ws sg rest]
  show ?thesis by blast
qed

theorem stored_preference_defaults_witness:
  "getItem nothingStored (js ''blitz'') = None
   \<and> initChallengeDuration True nothingStored (js ''blitz'') = Num 60
   \<and> getItem nothingStored (js ''blitz'' @ js ''_gameMode'') = None
   \<and> initGameMode True nothingStored (js ''blitz'') = js ''Pick''
   \<and> getItem corruptStore (js ''blitz'' @ js ''_gameMode'') = Some (js ''Hard'')
   \<and> initGameMode True corruptStore (js ''blitz'') = js ''Hard''
   \<and> getItem corruptStore (js ''blitz'') = Some (js ''abc'')
   \<and> initChallengeDuration True corruptStore (js ''blitz'') = parseInt (js ''abc'')
   \<and> isWhiteSpace 0x20 \<and> isWhiteSpace 0x3000
   \<and> parseInt ([0x20, 0x3000] @ js ''abc'') = NaN
   \<and> parseInt ([0x20, 0x3000] @ 0x2D # js ''abc'') = NaN
   \<and> parseInt ([] @ 0x2B # []) = NaN"
proof -
  have h1: "getItem nothingStored (js ''blitz'') = None"
    and h2: "getItem nothingStored (js ''blitz'' @ js ''_gameMode'') = None"
    by (simp_all add: getItem_def nothingStored_def)
  have h3: "getItem corruptStore (js ''blitz'' @ js ''_gameMode'') = Some (js ''Hard'')"
    and h4: "getItem corruptStore (js ''blitz'') = Some (js ''abc'')"
    by (simp_all add: getItem_def corruptStore_def js_def)
  have h5: "js ''Hard'' \<noteq> []" "js ''abc'' \<noteq> []" by (simp_all add: js_def)
  have h6: "\<forall>c\<in>set [0x20, 0x3000]. isWhiteSpace c" by (simp add: isWhiteSpace_def)
  have h7: "\<not> isWhiteSpace (hd (js ''abc'')) \<and> hd (js ''abc'') \<noteq> 0x2B
            \<and> hd (js ''abc'') \<noteq> 0x2D \<and> \<not> isRadixDigit 10 (hd (js ''abc''))"
    by (simp add: js_def isWhiteSpace_def isRadixDigit_def digitValue_def)
  have h8: "\<forall>c\<in>set ([]::int list). isWhiteSpace c" by simp
  show ?thesis
    using h1 h2 h3 h4 h5 h6 h7 h8
      stored_preference_defaults [where window = True and ls = nothingStored
        and k = "js ''blitz''" and m = "js ''Hard''" and d = "js ''abc''"
        and ws = "[0x20, 0x3000]" and rest = "js ''abc''" and sg = "0x2D"]
      stored_preference_defaults [where window = True and ls = corruptStore
        and k = "js ''blitz''" and m = "js ''Hard''" and d = "js ''abc''"
        and ws = "[]" and rest = "[]" and sg = "0x2B"]
    by simp
qed

section \<open>Accuracy in double precision\<close>

text \<open>The rounding error of one operation, of the percentage, and what it leaves of the rounded percentage.\<close>

lemma ilog2_bounds:
  assumes "0 < x"
  shows "2 powi ilog2 x \<le> x" and "x < 2 powi (ilog2 x + 1)"
proof -
  obtain a b where q: "quotient_of x = (a, b)" by (cases "quotient_of x")
  from quotient_of_denom_pos [OF q] have b: "0 < b" .
  from quotient_of_div [OF q] have x: "x = of_int a / of_int b" .
  from assms x b have a: "0 < a" by (simp add: zero_less_divide_iff)
  define p where "p = bitlen a"
  define r where "r = bitlen b"
  from bitlen_bounds [OF a] have a1: "2 ^ nat (p - 1) \<le> a" and a2: "a < 2 ^ nat p"
    by (simp_all add: p_def)
  from bitlen_bounds [OF b] have b1: "2 ^ nat (r - 1) \<le> b" and b2: "b < 2 ^ nat r"
    by (simp_all add: r_def)
  have p1: "1 \<le> p" using a by (simp add: p_def bitlen_alt_def) 
  have r1: "1 \<le> r" using b by (simp add: r_def bitlen_alt_def)
  have ra1: "(2::rat) powi (p - 1) \<le> of_int a"
  proof -
    have "(of_int (2 ^ nat (p - 1)) :: rat) \<le> of_int a" using a1 by (simp only: of_int_le_iff)
    then show ?thesis using p1 by (simp add: power_int_nonneg_exp)
  qed
  have ra2: "(of_int a :: rat) < 2 powi p"
  proof -
    have "(of_int a :: rat) < of_int (2 ^ nat p)" using a2 by (simp only: of_int_less_iff)
    then show ?thesis using p1 by (simp add: power_int_nonneg_exp)
  qed
  have rb1: "(2::rat) powi (r - 1) \<le> of_int b"
  proof -
    have "(of_int (2 ^ nat (r - 1)) :: rat) \<le> of_int b" using b1 by (simp only: of_int_le_iff)
    then show ?thesis using r1 by (simp add: power_int_nonneg_exp)
  qed
  have rb2: "(of_int b :: rat) < 2 powi r"
  proof -
    have "(of_int b :: rat) < of_int (2 ^ nat r)" using b2 by (simp only: of_int_less_iff)
    then show ?thesis using r1 by (simp add: power_int_nonneg_exp)
  qed
  have bpos: "(0::rat) < of_int b" using b by simp
  have apos: "(0::rat) < of_int a" using a by simp
  have lo: "(2::rat) powi (p - r - 1) \<le> x"
  proof -
    have "(2::rat) powi (p - r - 1) = 2 powi (p - 1) / 2 powi r"
      by (simp add: power_int_diff)
    also have "\<dots> \<le> of_int a / 2 powi r"
      using ra1 by (simp add: divide_right_mono)
    also have "\<dots> \<le> of_int a / of_int b"
      using rb2 bpos apos by (simp add: frac_le)
    finally show ?thesis by (simp add: x)
  qed
  have hi: "x < (2::rat) powi (p - r + 1)"
  proof -
    have "x = of_int a / of_int b" by (rule x)
    also have "\<dots> < 2 powi p / of_int b"
      using ra2 bpos by (simp add: divide_strict_right_mono)
    also have "\<dots> \<le> 2 powi p / 2 powi (r - 1)"
      using rb1 by (simp add: frac_le)
    also have "\<dots> = 2 powi (p - r + 1)"
      by (simp add: power_int_diff [symmetric] algebra_simps)
    finally show ?thesis .
  qed
  have d: "ilog2 x = (if 2 powi (p - r) \<le> x then p - r else p - r - 1)"
    by (simp add: ilog2_def q p_def r_def)
  show "2 powi ilog2 x \<le> x" using lo by (simp add: d)
  show "x < 2 powi (ilog2 x + 1)" using hi by (auto simp add: d not_le)
qed


lemma roundTiesToEven_error: "\<bar>of_int (roundTiesToEven q) - q\<bar> \<le> 1 / 2"
proof -
  have a: "of_int \<lfloor>q\<rfloor> \<le> q" and b: "q < of_int \<lfloor>q\<rfloor> + 1" by linarith+
  show ?thesis
    using a b by (auto simp add: roundTiesToEven_def Let_def abs_le_iff)
qed

lemma fl_error:
  assumes "0 \<le> x"
  shows "\<bar>fl x - x\<bar> \<le> x / 2 ^ 53"
proof (cases "x = 0")
  case True
  then show ?thesis by (simp add: fl_def)
next
  case False
  with assms have pos: "0 < x" by simp
  define e where "e = ilog2 x - 52"
  define P :: rat where "P = 2 powi e"
  have Ppos: "0 < P" by (simp add: P_def)
  have f: "fl x = of_int (roundTiesToEven (x / P)) * P"
    using False by (simp add: fl_def Let_def e_def P_def)
  have "\<bar>fl x - x\<bar> = \<bar>of_int (roundTiesToEven (x / P)) - x / P\<bar> * P"
  proof -
    have "fl x - x = (of_int (roundTiesToEven (x / P)) - x / P) * P"
      using Ppos by (simp add: f algebra_simps)
    then show ?thesis using Ppos by (simp add: abs_mult)
  qed
  also have "\<dots> \<le> (1 / 2) * P"
    using roundTiesToEven_error [of "x / P"] Ppos by (simp add: mult_right_mono)
  also have "\<dots> = 2 powi ilog2 x / 2 ^ 53"
  proof -
    have "P = 2 powi ilog2 x / 2 powi 52"
      by (simp add: P_def e_def power_int_diff)
    then show ?thesis by simp
  qed
  also have "\<dots> \<le> x / 2 ^ 53"
    using ilog2_bounds(1) [OF pos] by (simp add: divide_right_mono)
  finally show ?thesis .
qed


lemma percentage_error:
  assumes "c \<le> t" "0 < t"
  shows "\<bar>fl (fl (of_nat c / of_nat t) * 100) - of_nat c / of_nat t * 100\<bar> < 1 / 2 ^ 45"
proof -
  define x :: rat where "x = of_nat c / of_nat t"
  define y where "y = fl x"
  define z where "z = fl (y * 100)"
  define u :: rat where "u = 1 / 2 ^ 53"
  define B :: rat where "B = (1 + u) * 100 * u"
  have u0: "0 \<le> u" and u1: "u \<le> 1" by (simp_all add: u_def)
  have x0: "0 \<le> x" by (simp add: x_def)
  have x1: "x \<le> 1" using assms by (simp add: x_def)
  have ey: "\<bar>y - x\<bar> \<le> x * u"
    using fl_error [OF x0] by (simp add: y_def u_def)
  have xu: "x * u \<le> u" using mult_right_mono [OF x1 u0] by simp
  have xu2: "x * u \<le> x" using mult_left_mono [OF u1 x0] by simp
  have ey1: "\<bar>y - x\<bar> \<le> u" using ey xu by linarith
  have y0: "0 \<le> y" using ey xu2 by linarith
  have y1: "y \<le> 1 + u" using ey1 x1 by linarith
  have ez: "\<bar>z - y * 100\<bar> \<le> y * 100 * u"
    using fl_error [of "y * 100"] y0 by (simp add: z_def u_def)
  have "y * 100 * u \<le> B"
    unfolding B_def using y1 u0 by (intro mult_right_mono) simp_all
  with ez have ez1: "\<bar>z - y * 100\<bar> \<le> B" by linarith
  have "\<bar>z - x * 100\<bar> = \<bar>(z - y * 100) + 100 * (y - x)\<bar>"
    by (simp add: algebra_simps)
  also have "\<dots> \<le> \<bar>z - y * 100\<bar> + \<bar>100 * (y - x)\<bar>"
    by (rule abs_triangle_ineq)
  also have "\<dots> = \<bar>z - y * 100\<bar> + 100 * \<bar>y - x\<bar>"
    by (simp only: abs_mult abs_numeral)
  also have "\<dots> \<le> B + 100 * u"
  proof (rule add_mono)
    show "\<bar>z - y * 100\<bar> \<le> B" by (rule ez1)
    show "100 * \<bar>y - x\<bar> \<le> 100 * u" using ey1 by simp
  qed
  also have "\<dots> < 1 / 2 ^ 45" by (simp add: B_def u_def)
  finally show ?thesis by (simp add: z_def y_def x_def)
qed

lemma floor_stable:
  fixes z V d :: rat
  assumes "\<bar>z - V\<bar> < d" "of_int N + d \<le> V + 1 / 2" "V + 1 / 2 \<le> of_int N + 1 - d"
  shows "\<lfloor>z + 1 / 2\<rfloor> = N"
  using assms by (intro floor_unique) linarith+


lemma accuracy_off_halfway:
  assumes "0 < correct st + wrong st" "correct st + wrong st \<le> 2 ^ 44" "\<not> halfway st"
  shows "accuracy st = accuracySpec st"
proof -
  define c where "c = correct st"
  define t where "t = correct st + wrong st"
  define V :: rat where "V = of_nat c / of_nat t * 100"
  define z where "z = fl (fl (of_nat c / of_nat t) * 100)"
  define n2 where "n2 = 200 * c + t"
  define d2 where "d2 = 2 * t"
  define r where "r = n2 mod d2"
  define N where "N = int (n2 div d2)"
  define D :: rat where "D = of_nat d2"
  define R :: rat where "R = of_nat r"
  have t0: "0 < t" and t44: "t \<le> 2 ^ 44" and ct: "c \<le> t"
    using assms by (simp_all add: t_def c_def)
  have d0: "0 < d2" using t0 by (simp add: d2_def)
  have D0: "0 < D" using d0 by (simp add: D_def)
  have r0: "0 < r" using assms(3) by (simp add: halfway_def r_def n2_def d2_def c_def t_def)
  have r1: "r < d2" using d0 by (simp add: r_def)
  have R1: "1 \<le> R" using r0 by (simp add: R_def)
  have R2: "R \<le> D - 1"
  proof -
    have "r + 1 \<le> d2" using r1 by simp
    then have "(of_nat (r + 1) :: rat) \<le> of_nat d2" by (simp only: of_nat_le_iff)
    then show ?thesis by (simp add: R_def D_def)
  qed
  have D45: "D \<le> 2 ^ 45"
  proof -
    have "d2 \<le> 2 ^ 45" using t44 by (simp add: d2_def)
    then have "(of_nat d2 :: rat) \<le> of_nat (2 ^ 45)" by (simp only: of_nat_le_iff)
    then show ?thesis by (simp add: D_def)
  qed
  have inv: "1 / 2 ^ 45 \<le> 1 / D"
    using D45 D0 by (simp add: frac_le)
  have split: "V + 1 / 2 = of_int N + R / D"
  proof -
    have "n2 = d2 * (n2 div d2) + r" by (simp add: r_def)
    then have "(of_nat n2 :: rat) = of_nat (d2 * (n2 div d2) + r)" by simp
    then have e: "(of_nat n2 :: rat) = D * of_int N + R"
      by (simp add: D_def N_def R_def)
    have "V + 1 / 2 = of_nat n2 / D"
      using t0 by (simp add: V_def n2_def D_def d2_def field_simps)
    also have "\<dots> = of_int N + R / D"
      using D0 by (simp add: e field_simps)
    finally show ?thesis .
  qed
  have lo: "1 / D \<le> R / D" using R1 D0 by (simp add: divide_right_mono)
  have hi: "R / D \<le> 1 - 1 / D"
  proof -
    have "R / D \<le> (D - 1) / D" using R2 D0 by (simp add: divide_right_mono)
    also have "\<dots> = 1 - 1 / D" using D0 by (simp add: field_simps)
    finally show ?thesis .
  qed
  have a1: "of_int N + 1 / 2 ^ 45 \<le> V + 1 / 2" using split lo inv by linarith
  have a2: "V + 1 / 2 \<le> of_int N + 1 - 1 / 2 ^ 45" using split hi inv by linarith
  have spec: "accuracySpec st = N"
  proof -
    have "\<lfloor>V + 1 / 2\<rfloor> = N"
      using a1 a2 by (intro floor_unique) (simp_all add: field_simps)
    then show ?thesis
      using t0 by (simp add: accuracySpec_def round_def V_def c_def t_def)
  qed
  have err: "\<bar>z - V\<bar> < 1 / 2 ^ 45"
    unfolding z_def V_def by (rule percentage_error [OF ct t0])
  have "\<lfloor>z + 1 / 2\<rfloor> = N" by (rule floor_stable [OF err a1 a2])
  then have "accuracy st = N"
    using t0 by (simp add: accuracy_def Let_def Math_round_def z_def c_def t_def)
  with spec show ?thesis by simp
qed


text \<open>
  Against claim C7 as stated. With 23 correct and 17 wrong answers the percentage is 57.5
  and rounds to 58, but the double nearest to 23/40 lies below it, its product with 100
  is the double just below 57.5, and the accuracy shown is 57.
\<close>

theorem accuracy_counterexample:
  "accuracy score23of40 = 57 \<and> accuracySpec score23of40 = 58"
  by code_simp

lemma percentage_7_of_10: "Math_round (fl (fl (7 / 10) * 100)) = 70"
  by code_simp

text \<open>
  Claim C7, amended. The accuracy is 0 when no answer has been given. With at least one
  and at most \<open>2 ^ 44\<close> answers it equals \<open>round(correct / (correct + wrong) * 100)\<close>
  whenever that percentage does not lie exactly halfway between two integers. With 7
  correct and 3 wrong answers it is 70.
\<close>

theorem accuracy_rounds:
  "(correct st + wrong st = 0 \<longrightarrow> accuracy st = 0)
   \<and> (0 < correct st + wrong st \<and> correct st + wrong st \<le> 2 ^ 44 \<and> \<not> halfway st \<longrightarrow>
        accuracy st = accuracySpec st)
   \<and> accuracy \<lparr>correct = 7, wrong = 3, streak = s, bestStreak = b\<rparr> = 70"
  using accuracy_off_halfway [of st] percentage_7_of_10
  by (simp add: accuracy_def)

theorem accuracy_rounds_witness:
  "correct zeroStats + wrong zeroStats = 0
   \<and> accuracy zeroStats = 0
   \<and> 0 < correct score7of10 + wrong score7of10
   \<and> correct score7of10 + wrong score7of10 \<le> 2 ^ 44
   \<and> \<not> halfway score7of10
   \<and> accuracy score7of10 = accuracySpec score7of10
   \<and> accuracySpec score7of10 = 70"
proof -
  have h1: "correct zeroStats + wrong zeroStats = 0" by (simp add: zeroStats_def)
  have h2: "0 < correct score7of10 + wrong score7of10" by (simp add: score7of10_def)
  have h3: "correct score7of10 + wrong score7of10 \<le> 2 ^ 44" by (simp add: score7of10_def)
  have h4: "\<not> halfway score7of10" by (simp add: halfway_def score7of10_def)
  have h5: "accuracySpec score7of10 = 70" by code_simp
  show ?thesis
    using h1 h2 h3 h4 h5 accuracy_rounds [of zeroStats] accuracy_rounds [of score7of10]
    by simp
qed

end
